theory Spec2Isabelle
  imports Main "HOL-Library.Word"
begin

unbundle bit_operations_syntax

chapter \<open>The model\<close>

section \<open>Data model\<close>

text \<open>
  Coordinates and rectangles of the console API. The fields are C \<open>SHORT\<close>s; they are
  modelled as integers, and the places that add or subtract an unguarded amount (the
  page moves of the line selection and of the cursor, and the column before the edit
  line) wrap explicitly with \<open>to_short\<close>.
\<close>

record COORD =
  X :: int
  Y :: int

record SMALL_RECT =
  Left :: int
  Top :: int
  Right :: int
  Bottom :: int

definition to_short :: "int \<Rightarrow> int" where
  "to_short i = (i + 32768) mod 65536 - 32768"

type_synonym WCHAR = "16 word"

type_synonym BYTE = "8 word"

type_synonym WORD = "16 word"

type_synonym ULONG = "32 word"

text \<open>A row of the text buffer: its characters and the per-column glyph-half marks.\<close>

record ROW =
  Chars :: "WCHAR list"
  KAttrs :: "BYTE list"

definition ATTR_LEADING_BYTE :: BYTE where
  "ATTR_LEADING_BYTE = 0x01"

definition ATTR_TRAILING_BYTE :: BYTE where
  "ATTR_TRAILING_BYTE = 0x02"

text \<open>The line being edited (the cooked read), as far as the selection code reads it.\<close>

record COOKED_READ_DATA =
  NumberOfVisibleChars :: int
  OriginalCursorPosition :: COORD

text \<open>The keyboard event: the virtual key and the modifiers recorded with it.\<close>

record INPUT_KEY_INFO =
  VirtualKey :: WORD
  ShiftPressed :: bool
  CtrlPressed :: bool
  AltPressed :: bool

text \<open>
  Calls into collaborators whose bodies are outside the selection input code are
  recorded in a log, in call order.
\<close>

datatype call =
    ClearSelection
  | ExtendSelection COORD
  | ShowSelection
  | HideSelection
  | MakeCursorVisible COORD
  | ColorSelection SMALL_RECT ULONG
  | SearchForString "WCHAR list" nat ULONG
  | SetKeyboardTextEditingUsed
  | SetKeyboardTextSelectionUsed

text \<open>
  The process-wide state the handlers read and write: the current screen buffer with its
  text rows and cursor, the cooked read, the live key state, and the fields of the
  \<open>Selection\<close> object.
\<close>

record console =
  Rows :: "ROW list"
  ScreenBufferSize :: COORD
  ScreenWindowSizeY :: int
  CursorPosition :: COORD
  CursorHasMoved :: bool
  lpCookedReadData :: "COOKED_READ_DATA option"
  LegacyAttributes :: WORD
  EnableColorSelection :: bool
  WordDelim :: "WCHAR \<Rightarrow> bool"
  KeyState :: "WORD \<Rightarrow> WORD"
  SelectingState :: bool
  dwSelectionFlags :: ULONG
  fLineSelection :: bool
  fUseAlternateSelection :: bool
  coordSelectionAnchor :: COORD
  srSelectionRect :: SMALL_RECT
  coordSavedCursorPosition :: COORD
  calls :: "call list"

section \<open>Row access\<close>

text \<open>
  Modelled from the spec: the row accessor \<open>TEXT_BUFFER_INFO::GetRowByOffset\<close>, whose
  body is not part of the sources at hand: given a row index it returns that row's
  character cells and per-column glyph marks. \<open>GetChar\<close> and \<open>GetKAttr\<close> are the source's
  reads \<open>GetRowByOffset(y)->CharRow.Chars[x]\<close> and \<open>...KAttrs[x]\<close>. A read outside the
  rows or outside a row's array has no defined result in the source; it is \<open>None\<close> here.
\<close>

definition GetRowByOffset :: "console \<Rightarrow> int \<Rightarrow> ROW option" where
  "GetRowByOffset s y =
     (if 0 \<le> y \<and> y < int (length (Rows s)) then Some (Rows s ! nat y) else None)"

definition GetChar :: "console \<Rightarrow> COORD \<Rightarrow> WCHAR option" where
  "GetChar s c =
     (case GetRowByOffset s (Y c) of
        None \<Rightarrow> None
      | Some r \<Rightarrow>
          if 0 \<le> X c \<and> X c < int (length (Chars r)) then Some (Chars r ! nat (X c)) else None)"

definition GetKAttr :: "console \<Rightarrow> COORD \<Rightarrow> BYTE option" where
  "GetKAttr s c =
     (case GetRowByOffset s (Y c) of
        None \<Rightarrow> None
      | Some r \<Rightarrow>
          if 0 \<le> X c \<and> X c < int (length (KAttrs r)) then Some (KAttrs r ! nat (X c)) else None)"

section \<open>Geometry utilities\<close>

text \<open>
  Modelled from the spec: \<open>Utils::s_GetCurrentBufferEdges\<close>, whose body is not part of
  the sources at hand. The buffer edge rectangle is the leftmost/rightmost column and
  the topmost/bottommost row of the whole buffer.
\<close>

definition s_GetCurrentBufferEdges :: "console \<Rightarrow> SMALL_RECT" where
  "s_GetCurrentBufferEdges s =
     \<lparr>Left = 0, Top = 0,
      Right = X (ScreenBufferSize s) - 1, Bottom = Y (ScreenBufferSize s) - 1\<rparr>"

text \<open>
  Modelled from the spec: \<open>Utils::s_CompareCoords\<close>. Reading order: negative when the
  first coordinate comes before the second, zero when they are equal, positive otherwise.
\<close>

definition s_CompareCoords :: "COORD \<Rightarrow> COORD \<Rightarrow> int" where
  "s_CompareCoords a b =
     (if Y a < Y b then - 1
      else if Y b < Y a then 1
      else if X a < X b then - 1
      else if X b < X a then 1
      else 0)"

text \<open>
  Modelled from the spec: \<open>Utils::s_DoIncrementScreenCoordinate\<close> and
  \<open>Utils::s_DoDecrementScreenCoordinate\<close>. A step past the last column of a row
  continues at the first column of the next row, and the reverse for a decrement; a
  step that would leave the buffer reports failure and the coordinate stays where it is.
\<close>

definition s_DoIncrementScreenCoordinate :: "SMALL_RECT \<Rightarrow> COORD \<Rightarrow> bool \<times> COORD" where
  "s_DoIncrementScreenCoordinate srectEdges c =
     (if X c < Right srectEdges then (True, c\<lparr>X := X c + 1\<rparr>)
      else if Y c < Bottom srectEdges then (True, \<lparr>X = Left srectEdges, Y = Y c + 1\<rparr>)
      else (False, c))"

definition s_DoDecrementScreenCoordinate :: "SMALL_RECT \<Rightarrow> COORD \<Rightarrow> bool \<times> COORD" where
  "s_DoDecrementScreenCoordinate srectEdges c =
     (if Left srectEdges < X c then (True, c\<lparr>X := X c - 1\<rparr>)
      else if Top srectEdges < Y c then (True, \<lparr>X = Right srectEdges, Y = Y c - 1\<rparr>)
      else (False, c))"

text \<open>
  Modelled from the spec: \<open>Utils::s_AddToPosition\<close>, the translation of a coordinate by
  an offset in wrapped buffer-coordinate space: that many single steps, stopping with
  failure at the first step that fails.
\<close>

fun AddToPosition_inc :: "SMALL_RECT \<Rightarrow> nat \<Rightarrow> COORD \<Rightarrow> bool \<times> COORD" where
  "AddToPosition_inc srectEdges 0 c = (True, c)"
| "AddToPosition_inc srectEdges (Suc n) c =
     (case s_DoIncrementScreenCoordinate srectEdges c of
        (False, c') \<Rightarrow> (False, c')
      | (True, c') \<Rightarrow> AddToPosition_inc srectEdges n c')"

fun AddToPosition_dec :: "SMALL_RECT \<Rightarrow> nat \<Rightarrow> COORD \<Rightarrow> bool \<times> COORD" where
  "AddToPosition_dec srectEdges 0 c = (True, c)"
| "AddToPosition_dec srectEdges (Suc n) c =
     (case s_DoDecrementScreenCoordinate srectEdges c of
        (False, c') \<Rightarrow> (False, c')
      | (True, c') \<Rightarrow> AddToPosition_dec srectEdges n c')"

definition s_AddToPosition :: "SMALL_RECT \<Rightarrow> int \<Rightarrow> COORD \<Rightarrow> bool \<times> COORD" where
  "s_AddToPosition srectEdges iAdd c =
     (if 0 < iAdd then AddToPosition_inc srectEdges (nat iAdd) c
      else AddToPosition_dec srectEdges (nat (- iAdd)) c)"

section \<open>Boundary validator\<close>

text \<open>
  \<open>Selection::s_GetInputLineBoundaries\<close>: \<open>None\<close> is the \<open>false\<close> return; otherwise the
  pair written to the two out parameters.
\<close>

definition s_GetInputLineBoundaries :: "console \<Rightarrow> (COORD \<times> COORD) option" where
  "s_GetInputLineBoundaries s =
     (let srectEdges = s_GetCurrentBufferEdges s in
      case lpCookedReadData s of
        None \<Rightarrow> None
      | Some pCookedReadData \<Rightarrow>
          if NumberOfVisibleChars pCookedReadData \<le> 0 then None
          else
            let coordStart = OriginalCursorPosition pCookedReadData;
                coordEnd0 = OriginalCursorPosition pCookedReadData;
                coordEnd1 =
                  (if X coordEnd0 < 0 \<and> Y coordEnd0 < 0 then CursorPosition s
                   else snd (s_AddToPosition srectEdges
                               (NumberOfVisibleChars pCookedReadData) coordEnd0));
                coordEnd2 = snd (s_AddToPosition srectEdges (- 1) coordEnd1)
            in Some (coordStart, coordEnd2))"

text \<open>A coordinate inside an edge rectangle, as the source's assertions require it.\<close>

definition within_edges :: "SMALL_RECT \<Rightarrow> COORD \<Rightarrow> bool" where
  "within_edges e c \<longleftrightarrow> Left e \<le> X c \<and> X c \<le> Right e \<and> Top e \<le> Y c \<and> Y c \<le> Bottom e"

section \<open>Word boundary scanner\<close>

text \<open>
  \<open>IS_WORD_DELIM\<close> is a macro outside the sources at hand; the classification it
  computes is the \<open>WordDelim\<close> field of the state.
\<close>

definition IS_WORD_DELIM :: "console \<Rightarrow> WCHAR \<Rightarrow> bool" where
  "IS_WORD_DELIM s wch = WordDelim s wch"

text \<open>
  The \<open>do ... while\<close> loop of \<open>Selection::WordByWordSelection\<close>. It returns the
  selection point and \<open>fMoveSucceeded\<close> as they stand when the loop is left; \<open>None\<close>
  when a character read falls outside the rows.
\<close>

function WordByWordSelection_loop ::
  "console \<Rightarrow> bool \<Rightarrow> SMALL_RECT \<Rightarrow> COORD \<Rightarrow> COORD \<Rightarrow> COORD \<Rightarrow> bool \<Rightarrow> (COORD \<times> bool) option"
where
  "WordByWordSelection_loop s fReverse srectEdges coordMaxLeft coordMaxRight coordSelPoint
      fCurrIsDelim =
     (if s_CompareCoords coordSelPoint coordMaxLeft = 0 then Some (coordSelPoint, False)
      else if s_CompareCoords coordSelPoint coordMaxRight \<ge> 0 then Some (coordSelPoint, False)
      else
        (case (if \<not> fReverse then s_DoIncrementScreenCoordinate srectEdges coordSelPoint
               else s_DoDecrementScreenCoordinate srectEdges coordSelPoint) of
           (False, coordMoved) \<Rightarrow> Some (coordMoved, False)
         | (True, coordMoved) \<Rightarrow>
             (case GetChar s coordMoved of
                None \<Rightarrow> None
              | Some wchTest \<Rightarrow>
                  if (if \<not> fReverse then \<not> (fCurrIsDelim \<and> \<not> IS_WORD_DELIM s wchTest)
                      else \<not> (\<not> fCurrIsDelim \<and> IS_WORD_DELIM s wchTest))
                  then WordByWordSelection_loop s fReverse srectEdges coordMaxLeft coordMaxRight
                         coordMoved (IS_WORD_DELIM s wchTest)
                  else Some (coordMoved, True))))"
  by pat_completeness auto
termination
  apply (relation "measures
    [\<lambda>(s, fReverse, e, l, r, p, d). if fReverse then nat (Y p - Top e) else nat (Bottom e - Y p),
     \<lambda>(s, fReverse, e, l, r, p, d). if fReverse then nat (X p - Left e) else nat (Right e - X p)]")
   apply simp
  apply (auto simp: s_DoIncrementScreenCoordinate_def s_DoDecrementScreenCoordinate_def
      split: if_splits)
  done

text \<open>
  The scan limits (source lines 164 to 177): the edit-line boundaries when there are
  any, else the corners of the edge rectangle.
\<close>

definition WordByWordSelection_limits :: "console \<Rightarrow> SMALL_RECT \<Rightarrow> COORD \<times> COORD" where
  "WordByWordSelection_limits s srectEdges =
     (case s_GetInputLineBoundaries s of
        Some (coordMaxLeft, coordMaxRight) \<Rightarrow> (coordMaxLeft, coordMaxRight)
      | None \<Rightarrow>
          (\<lparr>X = Left srectEdges, Y = Top srectEdges\<rparr>,
           \<lparr>X = Right srectEdges, Y = Bottom srectEdges\<rparr>))"

text \<open>\<open>fUnhighlighting\<close> (source lines 183 to 194), from the point after the first step.\<close>

definition WordByWordSelection_unhighlighting :: "bool \<Rightarrow> COORD \<Rightarrow> COORD \<Rightarrow> bool" where
  "WordByWordSelection_unhighlighting fReverse coordSelPoint coordAnchor =
     (if \<not> fReverse then s_CompareCoords coordSelPoint coordAnchor < 0
      else s_CompareCoords coordSelPoint coordAnchor > 0)"

text \<open>\<open>Selection::WordByWordSelection\<close>: the new value of \<open>*pcoordSelPoint\<close>.\<close>

definition WordByWordSelection ::
  "console \<Rightarrow> bool \<Rightarrow> SMALL_RECT \<Rightarrow> COORD \<Rightarrow> COORD \<Rightarrow> COORD option"
where
  "WordByWordSelection s fReverse srectEdges coordAnchor coordSelPoint =
     (let coordFirst =
            snd (if \<not> fReverse then s_DoIncrementScreenCoordinate srectEdges coordSelPoint
                 else s_DoDecrementScreenCoordinate srectEdges coordSelPoint)
      in case GetChar s coordFirst of
           None \<Rightarrow> None
         | Some wchTest \<Rightarrow>
             (let fCurrIsDelim = IS_WORD_DELIM s wchTest;
                  (coordMaxLeft, coordMaxRight) = WordByWordSelection_limits s srectEdges;
                  fUnhighlighting =
                    WordByWordSelection_unhighlighting fReverse coordFirst coordAnchor
              in case WordByWordSelection_loop s fReverse srectEdges coordMaxLeft coordMaxRight
                        coordFirst fCurrIsDelim of
                   None \<Rightarrow> None
                 | Some (coordStopped, fMoveSucceeded) \<Rightarrow>
                     if fMoveSucceeded \<and> \<not> fUnhighlighting
                     then Some (snd (if \<not> fReverse
                                     then s_DoDecrementScreenCoordinate srectEdges coordStopped
                                     else s_DoIncrementScreenCoordinate srectEdges coordStopped))
                     else Some coordStopped))"

declare WordByWordSelection_loop.simps [simp del]

text \<open>One step of the scan in its direction, and one step against it.\<close>

abbreviation scan_step :: "bool \<Rightarrow> SMALL_RECT \<Rightarrow> COORD \<Rightarrow> bool \<times> COORD" where
  "scan_step fReverse e p \<equiv>
     (if \<not> fReverse then s_DoIncrementScreenCoordinate e p
      else s_DoDecrementScreenCoordinate e p)"

abbreviation scan_step_back :: "bool \<Rightarrow> SMALL_RECT \<Rightarrow> COORD \<Rightarrow> bool \<times> COORD" where
  "scan_step_back fReverse e p \<equiv>
     (if \<not> fReverse then s_DoDecrementScreenCoordinate e p
      else s_DoIncrementScreenCoordinate e p)"

text \<open>
  The transition the loop looks for: delimiter to non-delimiter going forward,
  non-delimiter to delimiter in reverse.
\<close>

definition delimiter_transition :: "bool \<Rightarrow> bool \<Rightarrow> bool \<Rightarrow> bool" where
  "delimiter_transition fReverse fPrevIsDelim fCurrIsDelim =
     (if \<not> fReverse then fPrevIsDelim \<and> \<not> fCurrIsDelim else \<not> fPrevIsDelim \<and> fCurrIsDelim)"

section \<open>Keys, modifiers and selection flags\<close>

text \<open>Virtual-key codes, the key-state bit and the selection flag bits of the Windows headers.\<close>

definition VK_RETURN :: WORD where "VK_RETURN = 0x0D"

definition VK_SHIFT :: WORD where "VK_SHIFT = 0x10"

definition VK_CONTROL :: WORD where "VK_CONTROL = 0x11"

definition VK_MENU :: WORD where "VK_MENU = 0x12"

definition VK_ESCAPE :: WORD where "VK_ESCAPE = 0x1B"

definition VK_PRIOR :: WORD where "VK_PRIOR = 0x21"

definition VK_NEXT :: WORD where "VK_NEXT = 0x22"

definition VK_END :: WORD where "VK_END = 0x23"

definition VK_HOME :: WORD where "VK_HOME = 0x24"

definition VK_LEFT :: WORD where "VK_LEFT = 0x25"

definition VK_UP :: WORD where "VK_UP = 0x26"

definition VK_RIGHT :: WORD where "VK_RIGHT = 0x27"

definition VK_DOWN :: WORD where "VK_DOWN = 0x28"

definition VK_INSERT :: WORD where "VK_INSERT = 0x2D"

definition KEY_PRESSED :: WORD where "KEY_PRESSED = 0x8000"

definition CONSOLE_SELECTION_NOT_EMPTY :: ULONG where "CONSOLE_SELECTION_NOT_EMPTY = 0x0002"

definition CONSOLE_MOUSE_SELECTION :: ULONG where "CONSOLE_MOUSE_SELECTION = 0x0004"

definition CONSOLE_MOUSE_DOWN :: ULONG where "CONSOLE_MOUSE_DOWN = 0x0008"

text \<open>
  Modelled from the spec: the modifier queries of \<open>INPUT_KEY_INFO\<close>, a class outside the
  sources at hand. "Exactly Shift" and "exactly Shift+Ctrl" are the two combinations the
  line selection accepts.
\<close>

definition IsShiftOnly :: "INPUT_KEY_INFO \<Rightarrow> bool" where
  "IsShiftOnly k \<longleftrightarrow> ShiftPressed k \<and> \<not> CtrlPressed k \<and> \<not> AltPressed k"

definition IsShiftAndCtrlOnly :: "INPUT_KEY_INFO \<Rightarrow> bool" where
  "IsShiftAndCtrlOnly k \<longleftrightarrow> ShiftPressed k \<and> CtrlPressed k \<and> \<not> AltPressed k"

text \<open>
  Modelled from the spec: the flag accessors and the lifecycle operations of the
  \<open>Selection\<close> object whose bodies are outside the sources at hand. The accessors read
  the mode bits; a selection is a line selection when the line-selection setting and the
  alternate-selection toggle differ; a mouse selection is initialized as a one-cell
  selection anchored at the given point; aligning the alternate selection to line
  selection makes the selection a line selection.
\<close>

definition IsInSelectingState :: "console \<Rightarrow> bool" where
  "IsInSelectingState s = SelectingState s"

definition IsAreaSelected :: "console \<Rightarrow> bool" where
  "IsAreaSelected s \<longleftrightarrow> dwSelectionFlags s AND CONSOLE_SELECTION_NOT_EMPTY \<noteq> 0"

definition IsMouseInitiatedSelection :: "console \<Rightarrow> bool" where
  "IsMouseInitiatedSelection s \<longleftrightarrow> dwSelectionFlags s AND CONSOLE_MOUSE_SELECTION \<noteq> 0"

definition IsKeyboardMarkSelection :: "console \<Rightarrow> bool" where
  "IsKeyboardMarkSelection s \<longleftrightarrow> dwSelectionFlags s AND CONSOLE_MOUSE_SELECTION = 0"

definition IsMouseButtonDown :: "console \<Rightarrow> bool" where
  "IsMouseButtonDown s \<longleftrightarrow> dwSelectionFlags s AND CONSOLE_MOUSE_DOWN \<noteq> 0"

definition IsLineSelection :: "console \<Rightarrow> bool" where
  "IsLineSelection s \<longleftrightarrow> fLineSelection s \<noteq> fUseAlternateSelection s"

definition InitializeMouseSelection :: "COORD \<Rightarrow> console \<Rightarrow> console" where
  "InitializeMouseSelection coordBufferPos s =
     s\<lparr>SelectingState := True,
       dwSelectionFlags := CONSOLE_MOUSE_SELECTION OR CONSOLE_SELECTION_NOT_EMPTY,
       coordSelectionAnchor := coordBufferPos,
       srSelectionRect := \<lparr>Left = X coordBufferPos, Top = Y coordBufferPos,
                           Right = X coordBufferPos, Bottom = Y coordBufferPos\<rparr>\<rparr>"

definition AlignAlternateSelection :: "bool \<Rightarrow> console \<Rightarrow> console" where
  "AlignAlternateSelection fAlignToLineSelect s =
     s\<lparr>fUseAlternateSelection :=
         (if fAlignToLineSelect then \<not> fLineSelection s else fLineSelection s)\<rparr>"

definition record_call :: "call \<Rightarrow> console \<Rightarrow> console" where
  "record_call c s = s\<lparr>calls := calls s @ [c]\<rparr>"

text \<open>\<open>Selection::s_IsValidKeyboardLineSelection\<close>.\<close>

definition s_IsValidKeyboardLineSelection :: "INPUT_KEY_INFO \<Rightarrow> bool" where
  "s_IsValidKeyboardLineSelection k =
     (let wVirtualKeyCode = VirtualKey k in
      if IsShiftOnly k then
        wVirtualKeyCode = VK_LEFT \<or> wVirtualKeyCode = VK_RIGHT \<or> wVirtualKeyCode = VK_UP \<or>
        wVirtualKeyCode = VK_DOWN \<or> wVirtualKeyCode = VK_NEXT \<or> wVirtualKeyCode = VK_PRIOR \<or>
        wVirtualKeyCode = VK_HOME \<or> wVirtualKeyCode = VK_END
      else if IsShiftAndCtrlOnly k then
        wVirtualKeyCode = VK_LEFT \<or> wVirtualKeyCode = VK_RIGHT \<or> wVirtualKeyCode = VK_UP \<or>
        wVirtualKeyCode = VK_DOWN \<or> wVirtualKeyCode = VK_HOME \<or> wVirtualKeyCode = VK_END
      else False)"

text \<open>\<open>Selection::GetValidAreaBoundaries\<close>: the start and the end of the valid area.\<close>

definition GetValidAreaBoundaries :: "console \<Rightarrow> COORD \<times> COORD" where
  "GetValidAreaBoundaries s =
     (let coordEnd =
            (case s_GetInputLineBoundaries s of
               Some (coordInputStart, coordInputEnd) \<Rightarrow> coordInputEnd
             | None \<Rightarrow>
                 if IsInSelectingState s \<and> IsKeyboardMarkSelection s
                 then coordSavedCursorPosition s
                 else CursorPosition s)
      in (\<lparr>X = 0, Y = 0\<rparr>, coordEnd))"

section \<open>Line selection extender\<close>

text \<open>
  \<open>bAttr & CHAR_ROW::ATTR_TRAILING_BYTE\<close> at a coordinate: whether the column is the
  trailing half of a glyph. \<open>None\<close> when the read is outside the rows.
\<close>

definition IsTrailingByte :: "BYTE \<Rightarrow> bool" where
  "IsTrailingByte bAttr \<longleftrightarrow> bAttr AND ATTR_TRAILING_BYTE \<noteq> 0"

definition IsLeadingByte :: "BYTE \<Rightarrow> bool" where
  "IsLeadingByte bAttr \<longleftrightarrow> bAttr AND ATTR_LEADING_BYTE \<noteq> 0"

text \<open>
  The two \<open>switch\<close> statements of \<open>Selection::HandleKeyboardLineSelectionEvent\<close> (source
  lines 344 to 577): the selection point after the movement of the key.
\<close>

definition LineSelection_move ::
  "console \<Rightarrow> INPUT_KEY_INFO \<Rightarrow> SMALL_RECT \<Rightarrow> COORD \<Rightarrow> COORD \<Rightarrow> COORD option"
where
  "LineSelection_move s k srectEdges coordAnchor coordSelPoint =
     (let wVirtualKeyCode = VirtualKey k;
          sWindowHeight = ScreenWindowSizeY s;
          inputLine = s_GetInputLineBoundaries s
      in
      if IsShiftOnly k then
        (if wVirtualKeyCode = VK_LEFT then
           Some (snd (s_DoDecrementScreenCoordinate srectEdges coordSelPoint))
         else if wVirtualKeyCode = VK_RIGHT then
           (let coordNext = snd (s_DoIncrementScreenCoordinate srectEdges coordSelPoint) in
            case GetKAttr s coordNext of
              None \<Rightarrow> None
            | Some bAttr \<Rightarrow>
                if IsTrailingByte bAttr
                then Some (snd (s_DoIncrementScreenCoordinate srectEdges coordNext))
                else Some coordNext)
         else if wVirtualKeyCode = VK_UP then
           Some (if Y coordSelPoint > Top srectEdges
                 then coordSelPoint\<lparr>Y := Y coordSelPoint - 1\<rparr> else coordSelPoint)
         else if wVirtualKeyCode = VK_DOWN then
           Some (if Y coordSelPoint < Bottom srectEdges
                 then coordSelPoint\<lparr>Y := Y coordSelPoint + 1\<rparr> else coordSelPoint)
         else if wVirtualKeyCode = VK_NEXT then
           (let y = to_short (Y coordSelPoint + sWindowHeight) in
            Some (coordSelPoint\<lparr>Y := if y > Bottom srectEdges then Bottom srectEdges else y\<rparr>))
         else if wVirtualKeyCode = VK_PRIOR then
           (let y = to_short (Y coordSelPoint - sWindowHeight) in
            Some (coordSelPoint\<lparr>Y := if y < Top srectEdges then Top srectEdges else y\<rparr>))
         else if wVirtualKeyCode = VK_HOME then
           (case inputLine of
              Some (coordInputLineStart, coordInputLineEnd) \<Rightarrow>
                if s_CompareCoords coordSelPoint coordInputLineStart > 0
                   \<and> Y coordInputLineStart = Y coordSelPoint
                then Some (coordSelPoint\<lparr>X := X coordInputLineStart\<rparr>)
                else Some (coordSelPoint\<lparr>X := 0\<rparr>)
            | None \<Rightarrow> Some (coordSelPoint\<lparr>X := 0\<rparr>))
         else if wVirtualKeyCode = VK_END then
           (case inputLine of
              Some (coordInputLineStart, coordInputLineEnd) \<Rightarrow>
                if s_CompareCoords coordSelPoint coordInputLineStart \<ge> 0 then
                  (if Y coordInputLineEnd = Y coordSelPoint
                      \<and> X coordSelPoint < X coordInputLineEnd
                   then Some (coordSelPoint\<lparr>X := X coordInputLineEnd\<rparr>)
                   else Some (coordSelPoint\<lparr>X := Right srectEdges\<rparr>))
                else
                  (if Y coordInputLineStart = Y coordSelPoint then
                     (let sEndOfOutputPos = to_short (X coordInputLineStart - 1) in
                      if X coordSelPoint < sEndOfOutputPos
                      then Some (coordSelPoint\<lparr>X := sEndOfOutputPos\<rparr>)
                      else if X coordSelPoint = sEndOfOutputPos
                              \<and> Y coordSelPoint = Y coordInputLineEnd
                      then Some (coordSelPoint\<lparr>X := X coordInputLineEnd\<rparr>)
                      else Some (coordSelPoint\<lparr>X := Right srectEdges\<rparr>))
                   else Some (coordSelPoint\<lparr>X := Right srectEdges\<rparr>))
            | None \<Rightarrow> Some (coordSelPoint\<lparr>X := Right srectEdges\<rparr>))
         else Some coordSelPoint)
      else if IsShiftAndCtrlOnly k then
        (if wVirtualKeyCode = VK_LEFT then
           WordByWordSelection s True srectEdges coordAnchor coordSelPoint
         else if wVirtualKeyCode = VK_RIGHT then
           WordByWordSelection s False srectEdges coordAnchor coordSelPoint
         else if wVirtualKeyCode = VK_UP then
           Some (if Y coordSelPoint > Top srectEdges
                 then coordSelPoint\<lparr>Y := Y coordSelPoint - 1\<rparr> else coordSelPoint)
         else if wVirtualKeyCode = VK_DOWN then
           Some (if Y coordSelPoint < Bottom srectEdges
                 then coordSelPoint\<lparr>Y := Y coordSelPoint + 1\<rparr> else coordSelPoint)
         else if wVirtualKeyCode = VK_HOME then Some (fst (GetValidAreaBoundaries s))
         else if wVirtualKeyCode = VK_END then Some (snd (GetValidAreaBoundaries s))
         else Some coordSelPoint)
      else Some coordSelPoint)"

text \<open>
  Source lines 579 to 596: a point on a trailing half is moved one step back, or one
  step forward when the step back fails.
\<close>

definition LineSelection_avoid_trailing :: "console \<Rightarrow> SMALL_RECT \<Rightarrow> COORD \<Rightarrow> COORD option" where
  "LineSelection_avoid_trailing s srectEdges coordSelPoint =
     (case GetKAttr s coordSelPoint of
        None \<Rightarrow> None
      | Some bAttr \<Rightarrow>
          if IsTrailingByte bAttr then
            (case s_DoDecrementScreenCoordinate srectEdges coordSelPoint of
               (True, coordMoved) \<Rightarrow> Some coordMoved
             | (False, coordMoved) \<Rightarrow>
                 Some (snd (s_DoIncrementScreenCoordinate srectEdges coordMoved)))
          else Some coordSelPoint)"

text \<open>The selection point: the corner of the selection rectangle opposite the anchor.\<close>

definition LineSelection_point :: "console \<Rightarrow> COORD" where
  "LineSelection_point s =
     (let coordAnchor = coordSelectionAnchor s; rectSelection = srSelectionRect s in
      \<lparr>X = (if X coordAnchor = Left rectSelection then Right rectSelection
             else Left rectSelection),
       Y = (if Y coordAnchor = Top rectSelection then Bottom rectSelection
            else Top rectSelection)\<rparr>)"

text \<open>
  Source lines 293 to 304: the telemetry note, and the start of a new line selection at
  the cursor when nothing is being selected yet.
\<close>

definition LineSelection_begin :: "console \<Rightarrow> console" where
  "LineSelection_begin s =
     (let s1 = record_call SetKeyboardTextSelectionUsed s in
      if \<not> IsInSelectingState s1
      then record_call ShowSelection
             (AlignAlternateSelection True (InitializeMouseSelection (CursorPosition s1) s1))
      else s1)"

text \<open>
  \<open>Selection::HandleKeyboardLineSelectionEvent\<close>: the return value and the state after
  the call; \<open>None\<close> when a row read falls outside the rows.
\<close>

definition HandleKeyboardLineSelectionEvent ::
  "console \<Rightarrow> INPUT_KEY_INFO \<Rightarrow> (bool \<times> console) option"
where
  "HandleKeyboardLineSelectionEvent s k =
     (let wVirtualKeyCode = VirtualKey k in
      if \<not> s_IsValidKeyboardLineSelection k then Some (False, s)
      else
        let s2 = LineSelection_begin s in
        if \<not> IsInSelectingState s \<and> IsShiftOnly k
           \<and> (wVirtualKeyCode = VK_LEFT \<or> wVirtualKeyCode = VK_RIGHT)
        then Some (True, s2)
        else
          let coordAnchor = coordSelectionAnchor s2;
              coordSelPoint = LineSelection_point s2;
              srectEdges = s_GetCurrentBufferEdges s2
          in case LineSelection_move s2 k srectEdges coordAnchor coordSelPoint of
               None \<Rightarrow> None
             | Some coordMoved \<Rightarrow>
                 (case LineSelection_avoid_trailing s2 srectEdges coordMoved of
                    None \<Rightarrow> None
                  | Some coordFinal \<Rightarrow>
                      Some (True, record_call (ExtendSelection coordFinal) s2)))"

section \<open>Mark-mode navigator\<close>

text \<open>\<open>Selection::CheckAndSetAlternateSelection\<close>.\<close>

definition CheckAndSetAlternateSelection :: "console \<Rightarrow> console" where
  "CheckAndSetAlternateSelection s =
     s\<lparr>fUseAlternateSelection := (KeyState s VK_MENU AND KEY_PRESSED \<noteq> 0)\<rparr>"

text \<open>
  The step sizes \<open>iNextRightX\<close> and \<open>iNextLeftX\<close> of
  \<open>Selection::_HandleMarkModeSelectionNav\<close> (source lines 735 to 783); \<open>None\<close> when a
  glyph mark is read outside the rows.
\<close>

definition MarkMode_NextRightX :: "console \<Rightarrow> COORD \<Rightarrow> int option" where
  "MarkMode_NextRightX s cursorPos =
     (case GetKAttr s cursorPos of
        None \<Rightarrow> None
      | Some bKAttrs \<Rightarrow> Some (if IsLeadingByte bKAttrs then 2 else 1))"

definition MarkMode_NextLeftX :: "console \<Rightarrow> COORD \<Rightarrow> int option" where
  "MarkMode_NextLeftX s cursorPos =
     (if X cursorPos > 0 then
        (case GetKAttr s (cursorPos\<lparr>X := X cursorPos - 1\<rparr>) of
           None \<Rightarrow> None
         | Some bKAttrs \<Rightarrow>
             if IsTrailingByte bKAttrs then Some 2
             else if IsLeadingByte bKAttrs then
               (if X cursorPos - 1 > 0 then
                  (case GetKAttr s (cursorPos\<lparr>X := X cursorPos - 2\<rparr>) of
                     None \<Rightarrow> None
                   | Some bKAttrs2 \<Rightarrow> if IsTrailingByte bKAttrs2 then Some 3 else Some 2)
                else Some 1)
             else Some 1)
      else Some 0)"

text \<open>
  Modelled from the spec: the cursor accessor and mutators (get or set column and row,
  increment or decrement by a delta, the has-moved flag), whose class is outside the
  sources at hand. \<open>GetPosition\<close> is the \<open>CursorPosition\<close> field. The position is a
  \<open>COORD\<close> of \<open>SHORT\<close>s: the row moves, which the page keys make by an unguarded
  amount, wrap with \<open>to_short\<close>; the column moves are made only under the source's
  guards (lines 789 and 798) and stay in range.
\<close>

definition SetXPosition :: "int \<Rightarrow> console \<Rightarrow> console" where
  "SetXPosition NewX s = s\<lparr>CursorPosition := (CursorPosition s)\<lparr>X := NewX\<rparr>\<rparr>"

definition SetYPosition :: "int \<Rightarrow> console \<Rightarrow> console" where
  "SetYPosition NewY s = s\<lparr>CursorPosition := (CursorPosition s)\<lparr>Y := NewY\<rparr>\<rparr>"

definition IncrementXPosition :: "int \<Rightarrow> console \<Rightarrow> console" where
  "IncrementXPosition DeltaX s =
     s\<lparr>CursorPosition := (CursorPosition s)\<lparr>X := X (CursorPosition s) + DeltaX\<rparr>\<rparr>"

definition DecrementXPosition :: "int \<Rightarrow> console \<Rightarrow> console" where
  "DecrementXPosition DeltaX s =
     s\<lparr>CursorPosition := (CursorPosition s)\<lparr>X := X (CursorPosition s) - DeltaX\<rparr>\<rparr>"

definition IncrementYPosition :: "int \<Rightarrow> console \<Rightarrow> console" where
  "IncrementYPosition DeltaY s =
     s\<lparr>CursorPosition :=
         (CursorPosition s)\<lparr>Y := to_short (Y (CursorPosition s) + DeltaY)\<rparr>\<rparr>"

definition DecrementYPosition :: "int \<Rightarrow> console \<Rightarrow> console" where
  "DecrementYPosition DeltaY s =
     s\<lparr>CursorPosition :=
         (CursorPosition s)\<lparr>Y := to_short (Y (CursorPosition s) - DeltaY)\<rparr>\<rparr>"

definition SetHasMoved :: "bool \<Rightarrow> console \<Rightarrow> console" where
  "SetHasMoved fHasMoved s = s\<lparr>CursorHasMoved := fHasMoved\<rparr>"

text \<open>
  The \<open>switch\<close> of \<open>Selection::_HandleMarkModeSelectionNav\<close> (source lines 785 to 875):
  the state with the cursor after the key.
\<close>

definition MarkMode_move :: "console \<Rightarrow> INPUT_KEY_INFO \<Rightarrow> int \<Rightarrow> int \<Rightarrow> console" where
  "MarkMode_move s k iNextRightX iNextLeftX =
     (let wVirtualKeyCode = VirtualKey k;
          cursorPos = CursorPosition s;
          coordBufferSize = ScreenBufferSize s
      in
      if wVirtualKeyCode = VK_RIGHT then
        (if X cursorPos + iNextRightX < X coordBufferSize
         then IncrementXPosition iNextRightX s else s)
      else if wVirtualKeyCode = VK_LEFT then
        (if X cursorPos > 0 then DecrementXPosition iNextLeftX s else s)
      else if wVirtualKeyCode = VK_UP then
        (if Y cursorPos > 0 then DecrementYPosition 1 s else s)
      else if wVirtualKeyCode = VK_DOWN then
        (if Y cursorPos + 1 < Y coordBufferSize then IncrementYPosition 1 s else s)
      else if wVirtualKeyCode = VK_NEXT then
        (let s1 = IncrementYPosition (ScreenWindowSizeY s - 1) s in
         if Y (CursorPosition s1) \<ge> Y coordBufferSize
         then SetYPosition (Y coordBufferSize - 1) s1 else s1)
      else if wVirtualKeyCode = VK_PRIOR then
        (let s1 = DecrementYPosition (ScreenWindowSizeY s - 1) s in
         if Y (CursorPosition s1) < 0 then SetYPosition 0 s1 else s1)
      else if wVirtualKeyCode = VK_END then
        (let s1 = SetXPosition (X coordBufferSize - 1) s in
         if CtrlPressed k then SetYPosition (Y (snd (GetValidAreaBoundaries s1))) s1 else s1)
      else if wVirtualKeyCode = VK_HOME then
        (let s1 = SetXPosition 0 s in
         if CtrlPressed k then SetYPosition 0 s1 else s1)
      else s)"

text \<open>
  Source lines 889 to 904: Shift is not held, so the selection shrinks to the cursor and
  the anchor is planted there.
\<close>

definition MarkMode_reset_anchor :: "console \<Rightarrow> console" where
  "MarkMode_reset_anchor s =
     (let s1 = (if IsAreaSelected s
                then (record_call HideSelection s)
                       \<lparr>dwSelectionFlags :=
                          dwSelectionFlags s AND NOT CONSOLE_SELECTION_NOT_EMPTY,
                        fUseAlternateSelection := False\<rparr>
                else s);
          s2 = SetHasMoved True s1;
          s3 = s2\<lparr>coordSelectionAnchor := CursorPosition s2\<rparr>;
          s4 = record_call (MakeCursorVisible (coordSelectionAnchor s3)) s3
      in s4\<lparr>srSelectionRect :=
              \<lparr>Left = X (coordSelectionAnchor s4), Top = Y (coordSelectionAnchor s4),
               Right = X (coordSelectionAnchor s4), Bottom = Y (coordSelectionAnchor s4)\<rparr>\<rparr>)"

text \<open>
  \<open>Selection::_HandleMarkModeSelectionNav\<close>: the return value and the state after the
  call; \<open>None\<close> when a glyph mark is read outside the rows.
\<close>

definition HandleMarkModeSelectionNav ::
  "console \<Rightarrow> INPUT_KEY_INFO \<Rightarrow> (bool \<times> console) option"
where
  "HandleMarkModeSelectionNav s k =
     (let wVirtualKeyCode = VirtualKey k in
      if wVirtualKeyCode = VK_RIGHT \<or> wVirtualKeyCode = VK_LEFT \<or> wVirtualKeyCode = VK_UP \<or>
         wVirtualKeyCode = VK_DOWN \<or> wVirtualKeyCode = VK_NEXT \<or> wVirtualKeyCode = VK_PRIOR \<or>
         wVirtualKeyCode = VK_END \<or> wVirtualKeyCode = VK_HOME
      then
        (case MarkMode_NextRightX s (CursorPosition s) of
           None \<Rightarrow> None
         | Some iNextRightX \<Rightarrow>
             (case MarkMode_NextLeftX s (CursorPosition s) of
                None \<Rightarrow> None
              | Some iNextLeftX \<Rightarrow>
                  (let s1 = MarkMode_move s k iNextRightX iNextLeftX in
                   if KeyState s1 VK_SHIFT AND KEY_PRESSED \<noteq> 0 then
                     (let s2 = (if \<not> IsAreaSelected s1 then CheckAndSetAlternateSelection s1
                                else s1)
                      in Some (True, record_call (ExtendSelection (CursorPosition s2)) s2))
                   else Some (True, MarkMode_reset_anchor s1))))
      else Some (False, s))"

section \<open>Color and find selector\<close>

text \<open>
  Modelled from the spec: \<open>SCREEN_INFORMATION::ClipToScreenBuffer\<close>, whose body is not
  part of the sources at hand. The rectangle is clipped to the buffer.
\<close>

definition ClipToScreenBuffer :: "console \<Rightarrow> SMALL_RECT \<Rightarrow> SMALL_RECT" where
  "ClipToScreenBuffer s psrClip =
     (let srEdges = s_GetCurrentBufferEdges s in
      \<lparr>Left = max (Left psrClip) (Left srEdges), Top = max (Top psrClip) (Top srEdges),
       Right = min (Right psrClip) (Right srEdges),
       Bottom = min (Bottom psrClip) (Bottom srEdges)\<rparr>)"

text \<open>
  The text of a find-and-color request (source lines 677 to 694): the characters of the
  selection's top row from its left column, at most the given maximum, whose constant
  \<open>SEARCH_STRING_LENGTH\<close> is outside the sources at hand and is a parameter. The length
  is computed as a \<open>ULONG\<close>, so a negative width counts as too long. \<open>None\<close> when the
  copy reads outside the row.
\<close>

definition ColorSelection_search_text ::
  "nat \<Rightarrow> console \<Rightarrow> SMALL_RECT \<Rightarrow> (WCHAR list \<times> nat) option"
where
  "ColorSelection_search_text SEARCH_STRING_LENGTH s psrSelection =
     (let width = Right psrSelection - Left psrSelection + 1;
          cLength = (if 0 \<le> width \<and> width \<le> int SEARCH_STRING_LENGTH then nat width
                     else SEARCH_STRING_LENGTH)
      in case GetRowByOffset s (Top psrSelection) of
           None \<Rightarrow> None
         | Some pRow \<Rightarrow>
             if 0 \<le> Left psrSelection
                \<and> nat (Left psrSelection) + cLength \<le> length (Chars pRow)
             then Some (take cLength (drop (nat (Left psrSelection)) (Chars pRow)), cLength)
             else None)"

text \<open>
  \<open>Selection::_HandleColorSelection\<close>: the return value and the state after the call.
\<close>

definition HandleColorSelection ::
  "nat \<Rightarrow> console \<Rightarrow> INPUT_KEY_INFO \<Rightarrow> (bool \<times> console) option"
where
  "HandleColorSelection SEARCH_STRING_LENGTH s k =
     (let wVirtualKeyCode = VirtualKey k;
          fAltPressed = AltPressed k;
          fShiftPressed =
            (if ShiftPressed k \<and>
                (\<not> IsAreaSelected s \<or> Top (srSelectionRect s) \<noteq> Bottom (srSelectionRect s))
             then False else ShiftPressed k);
          fCtrlPressed = (if \<not> fAltPressed then CtrlPressed k else False);
          s1 = s\<lparr>srSelectionRect := ClipToScreenBuffer s (srSelectionRect s)\<rparr>;
          psrSelection = srSelectionRect s1
      in
      if fAltPressed \<or> fCtrlPressed then
        (let ulAttr0 = (ucast wVirtualKeyCode :: ULONG) - 0x30 + 6;
             ulAttr = (if fCtrlPressed then push_bit 4 ulAttr0
                       else ulAttr0 OR (ucast (LegacyAttributes s1) AND 0xf0))
         in
         if fShiftPressed then
           (case ColorSelection_search_text SEARCH_STRING_LENGTH s1 psrSelection of
              None \<Rightarrow> None
            | Some (pwszSearchString, cLength) \<Rightarrow>
                Some (True,
                  record_call (SearchForString pwszSearchString cLength ulAttr)
                    (record_call ClearSelection s1)))
         else
           Some (True,
             record_call ClearSelection (record_call (ColorSelection psrSelection ulAttr) s1)))
      else Some (False, s1))"

section \<open>Selection event dispatcher\<close>

datatype KeySelectionEventResult = EventHandled | EventNotHandled | CopyToClipboard

text \<open>
  The first block of \<open>Selection::HandleKeySelectionEvent\<close> (source lines 27 to 53):
  \<open>Inl\<close> is a return from the function, \<open>Inr\<close> the state with which it falls through.
\<close>

definition HandleKeySelectionEvent_keys ::
  "nat \<Rightarrow> console \<Rightarrow> INPUT_KEY_INFO \<Rightarrow> ((KeySelectionEventResult \<times> console) + console) option"
where
  "HandleKeySelectionEvent_keys SEARCH_STRING_LENGTH s k =
     (let wVirtualKeyCode = VirtualKey k in
      if \<not> IsMouseButtonDown s then
        (if wVirtualKeyCode = VK_ESCAPE then
           Some (Inl (EventHandled, record_call ClearSelection s))
         else if wVirtualKeyCode = VK_RETURN \<or>
                 (KeyState s VK_CONTROL AND KEY_PRESSED \<noteq> 0 \<and>
                  (wVirtualKeyCode = 0x43 \<or> wVirtualKeyCode = VK_INSERT)) then
           Some (Inl (CopyToClipboard, record_call SetKeyboardTextEditingUsed s))
         else if EnableColorSelection s \<and> 0x30 \<le> wVirtualKeyCode \<and> 0x39 \<ge> wVirtualKeyCode then
           (case HandleColorSelection SEARCH_STRING_LENGTH s k of
              None \<Rightarrow> None
            | Some (True, s1) \<Rightarrow> Some (Inl (EventHandled, s1))
            | Some (False, s1) \<Rightarrow> Some (Inr s1))
         else Some (Inr s))
      else Some (Inr s))"

text \<open>
  \<open>Selection::HandleKeySelectionEvent\<close>. \<open>IsSystemKey\<close> is a function outside the
  sources at hand and is a parameter.
\<close>

definition HandleKeySelectionEvent ::
  "(WORD \<Rightarrow> bool) \<Rightarrow> nat \<Rightarrow> console \<Rightarrow> INPUT_KEY_INFO
   \<Rightarrow> (KeySelectionEventResult \<times> console) option"
where
  "HandleKeySelectionEvent IsSystemKey SEARCH_STRING_LENGTH s k =
     (let wVirtualKeyCode = VirtualKey k in
      case HandleKeySelectionEvent_keys SEARCH_STRING_LENGTH s k of
        None \<Rightarrow> None
      | Some (Inl returned) \<Rightarrow> Some returned
      | Some (Inr s1) \<Rightarrow>
          if \<not> IsMouseInitiatedSelection s1 then
            (case HandleMarkModeSelectionNav s1 k of
               None \<Rightarrow> None
             | Some (True, s2) \<Rightarrow> Some (EventHandled, s2)
             | Some (False, s2) \<Rightarrow> Some (EventNotHandled, s2))
          else if \<not> IsMouseButtonDown s1 then
            (case (if IsLineSelection s1 then HandleKeyboardLineSelectionEvent s1 k
                   else Some (False, s1)) of
               None \<Rightarrow> None
             | Some (True, s2) \<Rightarrow> Some (EventHandled, s2)
             | Some (False, s2) \<Rightarrow>
                 Some (EventNotHandled,
                   if \<not> IsSystemKey wVirtualKeyCode then record_call ClearSelection s2 else s2))
          else Some (EventNotHandled, s1))"

section \<open>Example states and the predicates of the statements\<close>

text \<open>
  A console of the size the unit tests prepare (buffer 80 by 300, window height 80),
  with blank rows, no cooked read, no key held and no selection. The concrete
  instances below are updates of it.
\<close>

definition blank_row :: ROW where
  "blank_row = \<lparr>Chars = replicate 80 0x20, KAttrs = replicate 80 0\<rparr>"

definition example_console :: console where
  "example_console =
     \<lparr>Rows = replicate 300 blank_row,
      ScreenBufferSize = \<lparr>X = 80, Y = 300\<rparr>,
      ScreenWindowSizeY = 80,
      CursorPosition = \<lparr>X = 0, Y = 0\<rparr>,
      CursorHasMoved = False,
      lpCookedReadData = None,
      LegacyAttributes = 0x07,
      EnableColorSelection = True,
      WordDelim = (\<lambda>w. w = 0x20),
      KeyState = (\<lambda>k. 0),
      SelectingState = True,
      dwSelectionFlags = 0,
      fLineSelection = True,
      fUseAlternateSelection = False,
      coordSelectionAnchor = \<lparr>X = 0, Y = 0\<rparr>,
      srSelectionRect = \<lparr>Left = 0, Top = 0, Right = 0, Bottom = 0\<rparr>,
      coordSavedCursorPosition = \<lparr>X = 0, Y = 0\<rparr>,
      calls = []\<rparr>"

subsection \<open>For: The word scan: where it stops and when it steps back\<close>

text \<open>A row that starts with the text \<open>AB CD\<close>, and a console whose first row it is.\<close>

definition words_row :: ROW where
  "words_row =
     \<lparr>Chars = [0x41, 0x42, 0x20, 0x43, 0x44] @ replicate 75 0x20, KAttrs = replicate 80 0\<rparr>"

definition words_console :: console where
  "words_console = example_console\<lparr>Rows := words_row # replicate 299 blank_row\<rparr>"

text \<open>
  A console with an edit line of 12 visible characters recorded at column 4 of row 10.
\<close>

definition editline_console :: console where
  "editline_console =
     example_console\<lparr>lpCookedReadData :=
       Some \<lparr>NumberOfVisibleChars = 12, OriginalCursorPosition = \<lparr>X = 4, Y = 10\<rparr>\<rparr>\<rparr>"

subsection \<open>For: Shift+Home in line selection\<close>

definition shift_key :: "WORD \<Rightarrow> INPUT_KEY_INFO" where
  "shift_key vk = \<lparr>VirtualKey = vk, ShiftPressed = True, CtrlPressed = False, AltPressed = False\<rparr>"

text \<open>
  The scenario of an edit line at columns 4 to 15 of row 10 with a mouse-initiated line
  selection anchored at column 8 of row 10: first with the selection point on the anchor,
  then with the selection reaching from column 4 to the anchor.
\<close>

definition home_console :: "int \<Rightarrow> console" where
  "home_console left =
     editline_console
       \<lparr>dwSelectionFlags := CONSOLE_MOUSE_SELECTION OR CONSOLE_SELECTION_NOT_EMPTY,
        coordSelectionAnchor := \<lparr>X = 8, Y = 10\<rparr>,
        srSelectionRect := \<lparr>Left = left, Top = 10, Right = 8, Bottom = 10\<rparr>\<rparr>"

subsection \<open>For: The selection point and trailing halves\<close>

definition trailing_at :: "console \<Rightarrow> COORD \<Rightarrow> bool" where
  "trailing_at s c = (case GetKAttr s c of None \<Rightarrow> False | Some bAttr \<Rightarrow> IsTrailingByte bAttr)"

definition leading_at :: "console \<Rightarrow> COORD \<Rightarrow> bool" where
  "leading_at s c = (case GetKAttr s c of None \<Rightarrow> False | Some bAttr \<Rightarrow> IsLeadingByte bAttr)"

text \<open>The rows and their glyph marks lie within the buffer size.\<close>

definition rows_fit :: "console \<Rightarrow> bool" where
  "rows_fit s \<longleftrightarrow>
     int (length (Rows s)) \<le> Y (ScreenBufferSize s) \<and>
     (\<forall>r \<in> set (Rows s). int (length (KAttrs r)) \<le> X (ScreenBufferSize s))"

text \<open>
  No trailing half is followed, in wrapped reading order, by another trailing half. It
  is what the step off a trailing half needs of the pairing of the glyph halves, which
  is stated next and implies it.
\<close>

definition no_adjacent_trailing :: "console \<Rightarrow> bool" where
  "no_adjacent_trailing s \<longleftrightarrow>
     (\<forall>c c'. trailing_at s c \<and>
        s_DoIncrementScreenCoordinate (s_GetCurrentBufferEdges s) c = (True, c') \<longrightarrow>
        \<not> trailing_at s c')"

text \<open>
  The glyph halves are paired: the cell before a trailing half, in wrapped reading
  order, holds the leading half of its glyph and is not itself a trailing half. A
  trailing half in the very first cell of the buffer, as the unit tests' bisected rows
  have it, has no cell before it.
\<close>

definition glyphs_paired :: "console \<Rightarrow> bool" where
  "glyphs_paired s \<longleftrightarrow>
     (\<forall>c c'. trailing_at s c' \<and>
        s_DoIncrementScreenCoordinate (s_GetCurrentBufferEdges s) c = (True, c') \<longrightarrow>
        leading_at s c \<and> \<not> trailing_at s c)"

text \<open>
  A row with double-width glyphs, laid out as the unit tests fill a row (leading halves
  in columns 2 and 5, trailing halves in columns 3 and 6). It is the second row of a
  console with a mouse-initiated line selection from the origin to a column of the
  first row.
\<close>

definition glyph_row :: ROW where
  "glyph_row = \<lparr>Chars = replicate 80 0x20, KAttrs = [0, 0, 1, 2, 0, 1, 2] @ replicate 73 0\<rparr>"

definition selection_console :: "ROW \<Rightarrow> int \<Rightarrow> console" where
  "selection_console row right =
     example_console
       \<lparr>Rows := blank_row # row # replicate 298 blank_row,
        dwSelectionFlags := CONSOLE_MOUSE_SELECTION OR CONSOLE_SELECTION_NOT_EMPTY,
        coordSelectionAnchor := \<lparr>X = 0, Y = 0\<rparr>,
        srSelectionRect := \<lparr>Left = 0, Top = 0, Right = right, Bottom = 0\<rparr>\<rparr>"

subsection \<open>For: Mark mode: step sizes and the collapsed selection\<close>

definition plain_key :: "WORD \<Rightarrow> INPUT_KEY_INFO" where
  "plain_key vk = \<lparr>VirtualKey = vk, ShiftPressed = False, CtrlPressed = False, AltPressed = False\<rparr>"

text \<open>
  A console in keyboard mark mode whose second row is the given row, with the cursor in
  the given column of that row.
\<close>

definition mark_console :: "ROW \<Rightarrow> int \<Rightarrow> console" where
  "mark_console row x =
     example_console
       \<lparr>Rows := blank_row # row # replicate 298 blank_row,
        CursorPosition := \<lparr>X = x, Y = 1\<rparr>\<rparr>"

subsection \<open>For: Color selection: the attribute and the clipped rectangle\<close>

text \<open>The color attributes handed to the color-apply and search collaborators, in call order.\<close>

fun call_color :: "call \<Rightarrow> ULONG list" where
  "call_color (ColorSelection r ulAttr) = [ulAttr]"
| "call_color (SearchForString text n ulAttr) = [ulAttr]"
| "call_color c = []"

definition passed_colors :: "call list \<Rightarrow> ULONG list" where
  "passed_colors cs = concat (map call_color cs)"

subsection \<open>For: The dispatcher: a key that cancels a mouse selection\<close>

text \<open>
  A console with a mouse-initiated line selection and no mouse button held, and a
  classification of system keys for the examples: the three modifier keys.
\<close>

definition mouse_console :: console where
  "mouse_console =
     example_console
       \<lparr>dwSelectionFlags := CONSOLE_MOUSE_SELECTION OR CONSOLE_SELECTION_NOT_EMPTY\<rparr>"

definition modifier_key :: "WORD \<Rightarrow> bool" where
  "modifier_key vk \<longleftrightarrow> vk = VK_SHIFT \<or> vk = VK_CONTROL \<or> vk = VK_MENU"

chapter \<open>Properties\<close>

section \<open>Geometry facts\<close>

lemma inc_within:
  "within_edges e c \<Longrightarrow> s_DoIncrementScreenCoordinate e c = (ok, c') \<Longrightarrow> within_edges e c'"
  by (auto simp: within_edges_def s_DoIncrementScreenCoordinate_def split: if_splits)

lemma dec_within:
  "within_edges e c \<Longrightarrow> s_DoDecrementScreenCoordinate e c = (ok, c') \<Longrightarrow> within_edges e c'"
  by (auto simp: within_edges_def s_DoDecrementScreenCoordinate_def split: if_splits)

lemma dec_after_inc:
  "within_edges e c \<Longrightarrow> s_DoIncrementScreenCoordinate e c = (True, c') \<Longrightarrow>
   s_DoDecrementScreenCoordinate e c' = (True, c)"
  by (auto simp: within_edges_def s_DoIncrementScreenCoordinate_def
      s_DoDecrementScreenCoordinate_def split: if_splits)

lemma inc_after_dec:
  "within_edges e c \<Longrightarrow> s_DoDecrementScreenCoordinate e c = (True, c') \<Longrightarrow>
   s_DoIncrementScreenCoordinate e c' = (True, c)"
  by (auto simp: within_edges_def s_DoIncrementScreenCoordinate_def
      s_DoDecrementScreenCoordinate_def split: if_splits)

lemma AddToPosition_inc_last:
  "within_edges e c \<Longrightarrow> AddToPosition_inc e (Suc n) c = (True, c') \<Longrightarrow>
   AddToPosition_inc e n c = (True, snd (s_DoDecrementScreenCoordinate e c'))
   \<and> fst (s_DoDecrementScreenCoordinate e c')"
proof (induction n arbitrary: c)
  case 0
  then show ?case
    by (auto split: prod.splits bool.splits dest: dec_after_inc)
next
  case (Suc n)
  obtain ok d where step: "s_DoIncrementScreenCoordinate e c = (ok, d)"
    by (cases "s_DoIncrementScreenCoordinate e c")
  with Suc.prems have ok: "ok" and rest: "AddToPosition_inc e (Suc n) d = (True, c')"
    by (auto split: bool.splits)
  have "within_edges e d"
    using Suc.prems(1) step by (rule inc_within)
  from Suc.IH [OF this rest] step ok show ?case
    by simp
qed

section \<open>Word boundary scanner: facts\<close>

lemma step_failed_stays:
  "s_DoIncrementScreenCoordinate e c = (False, c') \<Longrightarrow> c' = c"
  "s_DoDecrementScreenCoordinate e c = (False, c') \<Longrightarrow> c' = c"
  by (auto simp: s_DoIncrementScreenCoordinate_def s_DoDecrementScreenCoordinate_def
      split: if_splits)

lemma loop_result_rule:
  assumes run: "WordByWordSelection_loop s fReverse e l r p d = Some res"
    and start: "I p d"
    and limit: "\<And>p d. I p d \<Longrightarrow> s_CompareCoords p l = 0 \<or> s_CompareCoords p r \<ge> 0 \<Longrightarrow>
        Q (p, False)"
    and edge: "\<And>p d. I p d \<Longrightarrow> s_CompareCoords p l \<noteq> 0 \<Longrightarrow> s_CompareCoords p r < 0 \<Longrightarrow>
        scan_step fReverse e p = (False, p) \<Longrightarrow> Q (p, False)"
    and found: "\<And>p d p' w. I p d \<Longrightarrow> s_CompareCoords p l \<noteq> 0 \<Longrightarrow> s_CompareCoords p r < 0 \<Longrightarrow>
        scan_step fReverse e p = (True, p') \<Longrightarrow> GetChar s p' = Some w \<Longrightarrow>
        delimiter_transition fReverse d (IS_WORD_DELIM s w) \<Longrightarrow> Q (p', True)"
    and keep: "\<And>p d p' w. I p d \<Longrightarrow> s_CompareCoords p l \<noteq> 0 \<Longrightarrow> s_CompareCoords p r < 0 \<Longrightarrow>
        scan_step fReverse e p = (True, p') \<Longrightarrow> GetChar s p' = Some w \<Longrightarrow>
        \<not> delimiter_transition fReverse d (IS_WORD_DELIM s w) \<Longrightarrow> I p' (IS_WORD_DELIM s w)"
  shows "Q res"
  using run start limit edge found keep
proof (induction s fReverse e l r p d rule: WordByWordSelection_loop.induct)
  case (1 s fReverse e l r p d)
  note unfold = WordByWordSelection_loop.simps [of s fReverse e l r p d]
  note run = "1.prems"(1) and start = "1.prems"(2) and limit = "1.prems"(3)
    and edge = "1.prems"(4) and found = "1.prems"(5) and keep = "1.prems"(6)
  show ?case
  proof (cases "s_CompareCoords p l = 0 \<or> s_CompareCoords p r \<ge> 0")
    case True
    with run have "res = (p, False)"
      by (auto simp: unfold split: if_splits)
    with limit [OF start True] show ?thesis
      by simp
  next
    case False
    then have nl: "s_CompareCoords p l \<noteq> 0" and nr: "s_CompareCoords p r < 0"
      by auto
    obtain ok p' where st: "scan_step fReverse e p = (ok, p')"
      by (cases "scan_step fReverse e p")
    show ?thesis
    proof (cases ok)
      case False
      with st have "p' = p"
        by (auto dest: step_failed_stays split: if_splits)
      moreover from run nl nr st \<open>\<not> ok\<close> have "res = (p', False)"
        by (simp add: unfold)
      ultimately show ?thesis
        using edge [OF start nl nr] st \<open>\<not> ok\<close> by simp
    next
      case True
      with st have st': "scan_step fReverse e p = (True, p')"
        by simp
      from run nl nr st' obtain w where w: "GetChar s p' = Some w"
        by (cases "GetChar s p'") (auto simp: unfold)
      show ?thesis
      proof (cases "delimiter_transition fReverse d (IS_WORD_DELIM s w)")
        case True
        with run nl nr st' w have "res = (p', True)"
          by (auto simp: unfold delimiter_transition_def split: if_splits)
        with found [OF start nl nr st' w True] show ?thesis
          by simp
      next
        case False
        then have cont: "if \<not> fReverse then \<not> (d \<and> \<not> IS_WORD_DELIM s w)
            else \<not> (\<not> d \<and> IS_WORD_DELIM s w)"
          by (auto simp: delimiter_transition_def split: if_splits)
        with run nl nr st' w
        have rec: "WordByWordSelection_loop s fReverse e l r p' (IS_WORD_DELIM s w) = Some res"
          by (auto simp: unfold split: if_splits)
        have inv: "I p' (IS_WORD_DELIM s w)"
          by (rule keep [OF start nl nr st' w False])
        have eq: "(True, p') = scan_step fReverse e p"
          using st' by simp
        have nr': "\<not> 0 \<le> s_CompareCoords p r"
          using nr by simp
        show ?thesis
          by (rule "1.IH" [OF nl nr' eq refl w cont rec inv limit edge found keep])
      qed
    qed
  qed
qed

lemma CompareCoords_eq: "s_CompareCoords (a :: COORD) b = 0 \<longleftrightarrow> a = b"
  by (cases a, cases b) (auto simp: s_CompareCoords_def)

lemma CompareCoords_ge:
  "s_CompareCoords a b \<ge> 0 \<longleftrightarrow> Y b < Y a \<or> (Y b = Y a \<and> X b \<le> X a)"
  by (auto simp: s_CompareCoords_def)

lemma CompareCoords_le:
  "s_CompareCoords a b \<le> 0 \<longleftrightarrow> Y a < Y b \<or> (Y a = Y b \<and> X a \<le> X b)"
  by (auto simp: s_CompareCoords_def)

lemma loop_stopped_without_success:
  assumes "WordByWordSelection_loop s fReverse e l r p d = Some (q, False)"
  shows "s_CompareCoords q l = 0 \<or> s_CompareCoords q r \<ge> 0 \<or> \<not> fst (scan_step fReverse e q)"
proof -
  have "\<not> snd (q, False) \<longrightarrow>
      s_CompareCoords (fst (q, False)) l = 0 \<or> s_CompareCoords (fst (q, False)) r \<ge> 0
      \<or> \<not> fst (scan_step fReverse e (fst (q, False)))"
    by (rule loop_result_rule [OF assms, where I = "\<lambda>p d. True"]) auto
  then show ?thesis
    by (auto split: if_splits)
qed

lemma loop_stopped_with_success:
  assumes run: "WordByWordSelection_loop s fReverse e l r p d = Some (q, True)"
    and edges: "within_edges e p"
    and char: "GetChar s p = Some w0" "d = IS_WORD_DELIM s w0"
  shows "\<exists>before wb wq. within_edges e before \<and> scan_step fReverse e before = (True, q) \<and>
      GetChar s before = Some wb \<and> GetChar s q = Some wq \<and>
      delimiter_transition fReverse (IS_WORD_DELIM s wb) (IS_WORD_DELIM s wq)"
proof -
  have "snd (q, True) \<longrightarrow> (\<exists>before wb wq. within_edges e before \<and>
      scan_step fReverse e before = (True, fst (q, True)) \<and>
      GetChar s before = Some wb \<and> GetChar s (fst (q, True)) = Some wq \<and>
      delimiter_transition fReverse (IS_WORD_DELIM s wb) (IS_WORD_DELIM s wq))"
  proof (rule loop_result_rule [OF run,
        where I = "\<lambda>p d. within_edges e p \<and> (\<exists>w. GetChar s p = Some w \<and> d = IS_WORD_DELIM s w)"])
    show "within_edges e p \<and> (\<exists>w. GetChar s p = Some w \<and> d = IS_WORD_DELIM s w)"
      using edges char by blast
  next
    fix p d p' w
    assume "within_edges e p \<and> (\<exists>w. GetChar s p = Some w \<and> d = IS_WORD_DELIM s w)"
      and "scan_step fReverse e p = (True, p')" and "GetChar s p' = Some w"
      and "delimiter_transition fReverse d (IS_WORD_DELIM s w)"
    then show "snd (p', True) \<longrightarrow> (\<exists>before wb wq. within_edges e before \<and>
        scan_step fReverse e before = (True, fst (p', True)) \<and>
        GetChar s before = Some wb \<and> GetChar s (fst (p', True)) = Some wq \<and>
        delimiter_transition fReverse (IS_WORD_DELIM s wb) (IS_WORD_DELIM s wq))"
      by auto
  next
    fix p d p' w
    assume "within_edges e p \<and> (\<exists>w. GetChar s p = Some w \<and> d = IS_WORD_DELIM s w)"
      and "scan_step fReverse e p = (True, p')" and "GetChar s p' = Some w"
    then show "within_edges e p' \<and> (\<exists>wa. GetChar s p' = Some wa \<and> IS_WORD_DELIM s w = IS_WORD_DELIM s wa)"
      by (auto dest: inc_within dec_within split: if_splits)
  qed auto
  then show ?thesis
    by simp
qed

lemma step_back_exact:
  assumes "within_edges e before" and "scan_step fReverse e before = (True, q)"
  shows "scan_step_back fReverse e q = (True, before) \<and> before \<noteq> q"
proof -
  have "X q \<noteq> X before \<or> Y q \<noteq> Y before"
    using assms(2)
    by (auto simp: s_DoIncrementScreenCoordinate_def s_DoDecrementScreenCoordinate_def
        split: if_splits)
  then have "before \<noteq> q"
    by auto
  then show ?thesis
    using assms by (auto dest: dec_after_inc inc_after_dec split: if_splits)
qed

section \<open>Keys, modifiers and selection flags: facts\<close>

lemmas VK_defs = VK_RETURN_def VK_SHIFT_def VK_CONTROL_def VK_MENU_def VK_ESCAPE_def
  VK_PRIOR_def VK_NEXT_def VK_END_def VK_HOME_def VK_LEFT_def VK_UP_def VK_RIGHT_def
  VK_DOWN_def VK_INSERT_def

lemmas Cursor_defs = SetXPosition_def SetYPosition_def IncrementXPosition_def
  DecrementXPosition_def IncrementYPosition_def DecrementYPosition_def SetHasMoved_def

section \<open>The end of the edit line\<close>

lemma AddToPosition_minus_one:
  "snd (s_AddToPosition e (- 1) c) = snd (s_DoDecrementScreenCoordinate e c)"
  by (simp add: s_AddToPosition_def split: prod.splits bool.splits)

lemma AddToPosition_pred:
  assumes "within_edges e c" and "0 < n" and "s_AddToPosition e n c = (True, c')"
  shows "s_AddToPosition e (n - 1) c = (True, snd (s_DoDecrementScreenCoordinate e c'))"
proof -
  obtain m where m: "nat n = Suc m"
    using assms(2) by (cases "nat n") auto
  then have nm: "nat (n - 1) = m"
    by linarith
  from assms(2,3) m have "AddToPosition_inc e (Suc m) c = (True, c')"
    by (simp add: s_AddToPosition_def)
  from AddToPosition_inc_last [OF assms(1) this]
  have less: "AddToPosition_inc e m c = (True, snd (s_DoDecrementScreenCoordinate e c'))"
    by simp
  show ?thesis
  proof (cases "0 < n - 1")
    case True
    then show ?thesis
      using less nm by (simp add: s_AddToPosition_def)
  next
    case False
    then have "m = 0"
      using nm assms(2) by linarith
    then show ?thesis
      using less False assms(2) by (simp add: s_AddToPosition_def)
  qed
qed

text \<open>
  C5 (as amended). When \<open>s_GetInputLineBoundaries\<close> succeeds it returns the recorded
  original cursor position as the start. If that position is the invalid sentinel (both
  components negative), the end is the live cursor position stepped back by one position
  in wrapped buffer order, not the cursor position itself. Otherwise the end is the
  start advanced by the visible-character count and then stepped back by one; when the
  start lies within the buffer edges and the advance does not run past the bottom-right
  corner, that is the start advanced by the count minus one.
\<close>

theorem GetInputLineBoundaries_end:
  assumes "lpCookedReadData s = Some crd" and "0 < NumberOfVisibleChars crd"
  shows "\<exists>e. s_GetInputLineBoundaries s = Some (OriginalCursorPosition crd, e) \<and>
    (X (OriginalCursorPosition crd) < 0 \<and> Y (OriginalCursorPosition crd) < 0 \<longrightarrow>
       e = snd (s_AddToPosition (s_GetCurrentBufferEdges s) (- 1) (CursorPosition s))) \<and>
    (\<not> (X (OriginalCursorPosition crd) < 0 \<and> Y (OriginalCursorPosition crd) < 0) \<longrightarrow>
       e = snd (s_AddToPosition (s_GetCurrentBufferEdges s) (- 1)
             (snd (s_AddToPosition (s_GetCurrentBufferEdges s) (NumberOfVisibleChars crd)
                (OriginalCursorPosition crd))))) \<and>
    (within_edges (s_GetCurrentBufferEdges s) (OriginalCursorPosition crd) \<and>
     fst (s_AddToPosition (s_GetCurrentBufferEdges s) (NumberOfVisibleChars crd)
            (OriginalCursorPosition crd)) \<longrightarrow>
       e = snd (s_AddToPosition (s_GetCurrentBufferEdges s) (NumberOfVisibleChars crd - 1)
             (OriginalCursorPosition crd)))"
proof -
  let ?e = "s_GetCurrentBufferEdges s"
  let ?o = "OriginalCursorPosition crd"
  let ?n = "NumberOfVisibleChars crd"
  have valid: "\<not> (X ?o < 0 \<and> Y ?o < 0)" if "within_edges ?e ?o"
    using that by (simp add: within_edges_def s_GetCurrentBufferEdges_def)
  have pred: "snd (s_AddToPosition ?e (- 1) (snd (s_AddToPosition ?e ?n ?o)))
      = snd (s_AddToPosition ?e (?n - 1) ?o)"
    if w: "within_edges ?e ?o" and ok: "fst (s_AddToPosition ?e ?n ?o)"
  proof -
    obtain c' where c': "s_AddToPosition ?e ?n ?o = (True, c')"
      using ok by (cases "s_AddToPosition ?e ?n ?o") auto
    from AddToPosition_pred [OF w assms(2) c'] c' show ?thesis
      by (simp add: AddToPosition_minus_one)
  qed
  show ?thesis
    using assms valid pred
    by (auto simp: s_GetInputLineBoundaries_def Let_def)
qed

text \<open>
  C5, witness: an edit line of 12 visible characters recorded at column 4 of row 10 ends
  at column 15 of row 10.
\<close>

theorem GetInputLineBoundaries_end_witness:
  "s_GetInputLineBoundaries
     (example_console\<lparr>lpCookedReadData :=
        Some \<lparr>NumberOfVisibleChars = 12, OriginalCursorPosition = \<lparr>X = 4, Y = 10\<rparr>\<rparr>\<rparr>)
   = Some (\<lparr>X = 4, Y = 10\<rparr>, \<lparr>X = 15, Y = 10\<rparr>)"
proof -
  let ?crd = "\<lparr>NumberOfVisibleChars = 12, OriginalCursorPosition = \<lparr>X = 4, Y = 10\<rparr>\<rparr>"
  let ?s = "example_console\<lparr>lpCookedReadData := Some ?crd\<rparr>"
  have a: "lpCookedReadData ?s = Some ?crd" by simp
  have b: "0 < NumberOfVisibleChars ?crd" by simp
  have c: "s_AddToPosition (s_GetCurrentBufferEdges ?s) 12 \<lparr>X = 4, Y = 10\<rparr>
      = (True, \<lparr>X = 16, Y = 10\<rparr>)"
    by (simp add: s_AddToPosition_def s_GetCurrentBufferEdges_def example_console_def
        s_DoIncrementScreenCoordinate_def eval_nat_numeral)
  have d: "s_AddToPosition (s_GetCurrentBufferEdges ?s) (- 1) \<lparr>X = 16, Y = 10\<rparr>
      = (True, \<lparr>X = 15, Y = 10\<rparr>)"
    by (simp add: s_AddToPosition_def s_GetCurrentBufferEdges_def example_console_def
        s_DoDecrementScreenCoordinate_def)
  from GetInputLineBoundaries_end [OF a b] c d show ?thesis
    by auto
qed

text \<open>
  C5, counterexample to the claim as stated: with the sentinel \<open>(-1, -1)\<close> recorded and
  the live cursor at column 5 of row 3, the end returned is column 4 of row 3, which is
  not the cursor position.
\<close>

theorem GetInputLineBoundaries_sentinel_counterexample:
  "s_GetInputLineBoundaries
     (example_console\<lparr>CursorPosition := \<lparr>X = 5, Y = 3\<rparr>,
        lpCookedReadData :=
          Some \<lparr>NumberOfVisibleChars = 3, OriginalCursorPosition = \<lparr>X = - 1, Y = - 1\<rparr>\<rparr>\<rparr>)
   = Some (\<lparr>X = - 1, Y = - 1\<rparr>, \<lparr>X = 4, Y = 3\<rparr>)
   \<and> \<lparr>X = 4, Y = 3\<rparr> \<noteq>
     CursorPosition (example_console\<lparr>CursorPosition := \<lparr>X = 5, Y = 3\<rparr>,
        lpCookedReadData :=
          Some \<lparr>NumberOfVisibleChars = 3, OriginalCursorPosition = \<lparr>X = - 1, Y = - 1\<rparr>\<rparr>\<rparr>)"
  by (simp add: s_GetInputLineBoundaries_def s_AddToPosition_def s_GetCurrentBufferEdges_def
      example_console_def s_DoDecrementScreenCoordinate_def)

section \<open>The word scan: where it stops and when it steps back\<close>

lemma words_console_limits:
  "WordByWordSelection_limits words_console (s_GetCurrentBufferEdges words_console)
   = (\<lparr>X = 0, Y = 0\<rparr>, \<lparr>X = 79, Y = 299\<rparr>)"
  by (simp add: WordByWordSelection_limits_def s_GetInputLineBoundaries_def
      s_GetCurrentBufferEdges_def words_console_def example_console_def)

lemma words_console_chars:
  "GetChar words_console \<lparr>X = 1, Y = 0\<rparr> = Some 0x42"
  "GetChar words_console \<lparr>X = 2, Y = 0\<rparr> = Some 0x20"
  "GetChar words_console \<lparr>X = 3, Y = 0\<rparr> = Some 0x43"
  by (simp_all add: GetChar_def GetRowByOffset_def words_console_def example_console_def
      words_row_def)

lemma words_console_steps:
  "s_DoIncrementScreenCoordinate (s_GetCurrentBufferEdges words_console) \<lparr>X = 0, Y = 0\<rparr>
   = (True, \<lparr>X = 1, Y = 0\<rparr>)"
  "s_DoIncrementScreenCoordinate (s_GetCurrentBufferEdges words_console) \<lparr>X = 1, Y = 0\<rparr>
   = (True, \<lparr>X = 2, Y = 0\<rparr>)"
  "s_DoIncrementScreenCoordinate (s_GetCurrentBufferEdges words_console) \<lparr>X = 2, Y = 0\<rparr>
   = (True, \<lparr>X = 3, Y = 0\<rparr>)"
  "s_DoDecrementScreenCoordinate (s_GetCurrentBufferEdges words_console) \<lparr>X = 3, Y = 0\<rparr>
   = (True, \<lparr>X = 2, Y = 0\<rparr>)"
  by (simp_all add: s_GetCurrentBufferEdges_def words_console_def example_console_def
      s_DoIncrementScreenCoordinate_def s_DoDecrementScreenCoordinate_def)

lemma words_console_delim: "IS_WORD_DELIM words_console w \<longleftrightarrow> w = 0x20"
  by (simp add: IS_WORD_DELIM_def words_console_def example_console_def)

lemma words_console_scan:
  "WordByWordSelection_loop words_console False (s_GetCurrentBufferEdges words_console)
     \<lparr>X = 0, Y = 0\<rparr> \<lparr>X = 79, Y = 299\<rparr> \<lparr>X = 1, Y = 0\<rparr> False
   = Some (\<lparr>X = 3, Y = 0\<rparr>, True)"
proof -
  let ?e = "s_GetCurrentBufferEdges words_console"
  have second: "WordByWordSelection_loop words_console False ?e
      \<lparr>X = 0, Y = 0\<rparr> \<lparr>X = 79, Y = 299\<rparr> \<lparr>X = 2, Y = 0\<rparr> True
    = Some (\<lparr>X = 3, Y = 0\<rparr>, True)"
    by (subst WordByWordSelection_loop.simps)
      (simp add: s_CompareCoords_def words_console_steps words_console_chars
        words_console_delim)
  show ?thesis
    by (subst WordByWordSelection_loop.simps)
      (simp add: second s_CompareCoords_def words_console_steps words_console_chars
        words_console_delim)
qed

text \<open>
  C2. Let the scan take its first step from a selection point inside the edges, and let
  the loop stop at a point with \<open>fMoveSucceeded\<close> as it then stands. If the loop ended
  with a successful last step, that step crossed the delimiter transition. The result
  is the stopping point stepped back by exactly one position against the scan direction
  if and only if the last step succeeded and the movement is highlighting, where
  highlighting means that the point (after the first step) is not before the anchor for
  a forward scan and not after it for a reverse scan; otherwise the result is the
  stopping point itself.
\<close>

theorem WordByWordSelection_step_back:
  assumes edges: "within_edges e p"
    and run: "WordByWordSelection s fReverse e anchor p = Some result"
  shows "\<exists>first w stopped ok.
      first = snd (scan_step fReverse e p) \<and> GetChar s first = Some w \<and>
      WordByWordSelection_loop s fReverse e (fst (WordByWordSelection_limits s e))
        (snd (WordByWordSelection_limits s e)) first (IS_WORD_DELIM s w) = Some (stopped, ok) \<and>
      (ok \<longrightarrow> (\<exists>before wb ws. scan_step fReverse e before = (True, stopped) \<and>
          GetChar s before = Some wb \<and> GetChar s stopped = Some ws \<and>
          delimiter_transition fReverse (IS_WORD_DELIM s wb) (IS_WORD_DELIM s ws))) \<and>
      (let highlighting =
             (if \<not> fReverse
              then Y anchor < Y first \<or> (Y anchor = Y first \<and> X anchor \<le> X first)
              else Y first < Y anchor \<or> (Y first = Y anchor \<and> X first \<le> X anchor))
       in (ok \<and> highlighting \<longrightarrow>
             scan_step_back fReverse e stopped = (True, result) \<and> result \<noteq> stopped \<and>
             scan_step fReverse e result = (True, stopped)) \<and>
          (\<not> (ok \<and> highlighting) \<longrightarrow> result = stopped))"
proof -
  define first where "first = snd (scan_step fReverse e p)"
  have first_in: "within_edges e first"
    using edges unfolding first_def
    by (cases "scan_step fReverse e p") (auto dest: inc_within dec_within split: if_splits)
  from run obtain w where w: "GetChar s first = Some w"
    unfolding first_def
    by (cases "GetChar s (snd (scan_step fReverse e p))")
      (auto simp: WordByWordSelection_def Let_def)
  obtain l r where lim: "WordByWordSelection_limits s e = (l, r)"
    by (cases "WordByWordSelection_limits s e")
  from run w lim obtain stopped ok where
    loop: "WordByWordSelection_loop s fReverse e l r first (IS_WORD_DELIM s w) = Some (stopped, ok)"
    unfolding first_def
    by (cases "WordByWordSelection_loop s fReverse e l r (snd (scan_step fReverse e p))
          (IS_WORD_DELIM s w)")
      (auto simp: WordByWordSelection_def Let_def)
  define hl where "hl =
      (if \<not> fReverse
       then Y anchor < Y first \<or> (Y anchor = Y first \<and> X anchor \<le> X first)
       else Y first < Y anchor \<or> (Y first = Y anchor \<and> X first \<le> X anchor))"
  have unhl: "WordByWordSelection_unhighlighting fReverse first anchor \<longleftrightarrow> \<not> hl"
    by (auto simp: hl_def WordByWordSelection_unhighlighting_def s_CompareCoords_def)
  have res: "result = (if ok \<and> hl then snd (scan_step_back fReverse e stopped) else stopped)"
    using run w lim loop unhl unfolding first_def
    by (auto simp: WordByWordSelection_def Let_def split: if_splits)
  have found: "\<exists>before wb ws. within_edges e before \<and>
      scan_step fReverse e before = (True, stopped) \<and>
      GetChar s before = Some wb \<and> GetChar s stopped = Some ws \<and>
      delimiter_transition fReverse (IS_WORD_DELIM s wb) (IS_WORD_DELIM s ws)" if "ok"
    using loop_stopped_with_success [OF _ first_in w refl] loop that by simp
  have crossed: "ok \<longrightarrow> (\<exists>before wb ws. scan_step fReverse e before = (True, stopped) \<and>
      GetChar s before = Some wb \<and> GetChar s stopped = Some ws \<and>
      delimiter_transition fReverse (IS_WORD_DELIM s wb) (IS_WORD_DELIM s ws))"
    using found by blast
  have stepped: "ok \<and> hl \<longrightarrow>
      scan_step_back fReverse e stopped = (True, result) \<and> result \<noteq> stopped \<and>
      scan_step fReverse e result = (True, stopped)"
  proof
    assume a: "ok \<and> hl"
    then obtain before where b: "within_edges e before"
      "scan_step fReverse e before = (True, stopped)"
      using found by blast
    have "scan_step_back fReverse e stopped = (True, before)" "before \<noteq> stopped"
      using step_back_exact [OF b] by simp_all
    moreover from this a res have "result = before"
      by simp
    ultimately show "scan_step_back fReverse e stopped = (True, result) \<and> result \<noteq> stopped \<and>
      scan_step fReverse e result = (True, stopped)"
      using b(2) by (cases fReverse) simp_all
  qed
  have kept: "\<not> (ok \<and> hl) \<longrightarrow> result = stopped"
    using res by simp
  have loop': "WordByWordSelection_loop s fReverse e (fst (WordByWordSelection_limits s e))
      (snd (WordByWordSelection_limits s e)) first (IS_WORD_DELIM s w) = Some (stopped, ok)"
    using loop lim by simp
  have main: "first = snd (scan_step fReverse e p) \<and> GetChar s first = Some w \<and>
      WordByWordSelection_loop s fReverse e (fst (WordByWordSelection_limits s e))
        (snd (WordByWordSelection_limits s e)) first (IS_WORD_DELIM s w) = Some (stopped, ok) \<and>
      (ok \<longrightarrow> (\<exists>before wb ws. scan_step fReverse e before = (True, stopped) \<and>
          GetChar s before = Some wb \<and> GetChar s stopped = Some ws \<and>
          delimiter_transition fReverse (IS_WORD_DELIM s wb) (IS_WORD_DELIM s ws))) \<and>
      (let highlighting = hl
       in (ok \<and> highlighting \<longrightarrow>
             scan_step_back fReverse e stopped = (True, result) \<and> result \<noteq> stopped \<and>
             scan_step fReverse e result = (True, stopped)) \<and>
          (\<not> (ok \<and> highlighting) \<longrightarrow> result = stopped))"
    unfolding Let_def
    using first_def w loop' crossed stepped kept by blast
  show ?thesis
    by (rule exI [of _ first], rule exI [of _ w], rule exI [of _ stopped], rule exI [of _ ok])
      (rule main [unfolded hl_def])
qed

text \<open>
  C2, witness: scanning forward from the first cell of \<open>AB CD\<close> with the anchor on that
  cell, the loop stops on \<open>C\<close> in column 3 and the result is column 2, one step back.
\<close>

theorem WordByWordSelection_step_back_witness:
  "WordByWordSelection words_console False (s_GetCurrentBufferEdges words_console)
     \<lparr>X = 0, Y = 0\<rparr> \<lparr>X = 0, Y = 0\<rparr> = Some \<lparr>X = 2, Y = 0\<rparr>
   \<and> s_DoIncrementScreenCoordinate (s_GetCurrentBufferEdges words_console) \<lparr>X = 2, Y = 0\<rparr>
     = (True, \<lparr>X = 3, Y = 0\<rparr>)"
proof -
  let ?e = "s_GetCurrentBufferEdges words_console"
  have run: "WordByWordSelection words_console False ?e \<lparr>X = 0, Y = 0\<rparr> \<lparr>X = 0, Y = 0\<rparr>
      = Some \<lparr>X = 2, Y = 0\<rparr>"
    unfolding WordByWordSelection_def
    by (simp add: words_console_steps words_console_chars words_console_limits
        words_console_scan words_console_delim WordByWordSelection_unhighlighting_def
        s_CompareCoords_def)
  have inside: "within_edges ?e \<lparr>X = 0, Y = 0\<rparr>"
    by (simp add: within_edges_def s_GetCurrentBufferEdges_def words_console_def
        example_console_def)
  from WordByWordSelection_step_back [OF inside run]
  have "s_DoIncrementScreenCoordinate ?e \<lparr>X = 2, Y = 0\<rparr> = (True, \<lparr>X = 3, Y = 0\<rparr>)"
    by (auto simp: words_console_steps words_console_chars words_console_limits
        words_console_scan words_console_delim Let_def)
  with run show ?thesis
    by simp
qed

lemma editline_console_boundaries:
  "s_GetInputLineBoundaries editline_console = Some (\<lparr>X = 4, Y = 10\<rparr>, \<lparr>X = 15, Y = 10\<rparr>)"
  by (simp add: s_GetInputLineBoundaries_def s_AddToPosition_def s_GetCurrentBufferEdges_def
      editline_console_def example_console_def s_DoIncrementScreenCoordinate_def
      s_DoDecrementScreenCoordinate_def eval_nat_numeral)

text \<open>
  C3. The scan limits are the edit-line start and end when \<open>s_GetInputLineBoundaries\<close>
  succeeds, and the top-left and bottom-right corners of the edge rectangle otherwise.
  The loop stops at once, with \<open>fMoveSucceeded\<close> false, when the point equals the left
  limit, when it compares greater than or equal to the right limit in reading order, or
  when the step fails at the buffer edge; whenever the loop ends with \<open>fMoveSucceeded\<close>
  false, the point it ends at is in one of these three cases; and then the scan returns
  that point without the step-back correction.
\<close>

theorem WordByWordSelection_stops:
  "(\<forall>l r. s_GetInputLineBoundaries s = Some (l, r) \<longrightarrow>
        WordByWordSelection_limits s e = (l, r)) \<and>
   (s_GetInputLineBoundaries s = None \<longrightarrow>
        WordByWordSelection_limits s e
        = (\<lparr>X = Left e, Y = Top e\<rparr>, \<lparr>X = Right e, Y = Bottom e\<rparr>)) \<and>
   (p = l \<or> (Y r < Y p \<or> (Y r = Y p \<and> X r \<le> X p)) \<or> \<not> fst (scan_step fReverse e p) \<longrightarrow>
        WordByWordSelection_loop s fReverse e l r p d = Some (p, False)) \<and>
   (\<forall>q. WordByWordSelection_loop s fReverse e l r p d = Some (q, False) \<longrightarrow>
        q = l \<or> (Y r < Y q \<or> (Y r = Y q \<and> X r \<le> X q)) \<or> \<not> fst (scan_step fReverse e q)) \<and>
   (\<forall>w q. GetChar s (snd (scan_step fReverse e p0)) = Some w \<and>
        WordByWordSelection_loop s fReverse e (fst (WordByWordSelection_limits s e))
          (snd (WordByWordSelection_limits s e)) (snd (scan_step fReverse e p0))
          (IS_WORD_DELIM s w) = Some (q, False) \<longrightarrow>
        WordByWordSelection s fReverse e anchor p0 = Some q)"
proof (intro conjI allI impI)
  fix l r
  assume "s_GetInputLineBoundaries s = Some (l, r)"
  then show "WordByWordSelection_limits s e = (l, r)"
    by (simp add: WordByWordSelection_limits_def)
next
  assume "s_GetInputLineBoundaries s = None"
  then show "WordByWordSelection_limits s e
      = (\<lparr>X = Left e, Y = Top e\<rparr>, \<lparr>X = Right e, Y = Bottom e\<rparr>)"
    by (simp add: WordByWordSelection_limits_def)
next
  assume stop: "p = l \<or> (Y r < Y p \<or> (Y r = Y p \<and> X r \<le> X p))
      \<or> \<not> fst (scan_step fReverse e p)"
  show "WordByWordSelection_loop s fReverse e l r p d = Some (p, False)"
  proof (cases "s_CompareCoords p l = 0 \<or> s_CompareCoords p r \<ge> 0")
    case True
    then show ?thesis
      by (subst WordByWordSelection_loop.simps) auto
  next
    case False
    with stop have "\<not> fst (scan_step fReverse e p)"
      by (auto simp: CompareCoords_eq CompareCoords_ge)
    then have "scan_step fReverse e p = (False, p)"
      by (cases "scan_step fReverse e p") (auto dest: step_failed_stays split: if_splits)
    with False show ?thesis
      by (subst WordByWordSelection_loop.simps) auto
  qed
next
  fix q
  assume "WordByWordSelection_loop s fReverse e l r p d = Some (q, False)"
  from loop_stopped_without_success [OF this]
  show "q = l \<or> (Y r < Y q \<or> (Y r = Y q \<and> X r \<le> X q)) \<or> \<not> fst (scan_step fReverse e q)"
    by (simp only: CompareCoords_eq CompareCoords_ge)
next
  fix w q
  assume "GetChar s (snd (scan_step fReverse e p0)) = Some w \<and>
      WordByWordSelection_loop s fReverse e (fst (WordByWordSelection_limits s e))
        (snd (WordByWordSelection_limits s e)) (snd (scan_step fReverse e p0))
        (IS_WORD_DELIM s w) = Some (q, False)"
  then show "WordByWordSelection s fReverse e anchor p0 = Some q"
    by (cases "WordByWordSelection_limits s e")
      (auto simp: WordByWordSelection_def Let_def split: if_splits)
qed

text \<open>
  C3, witness: with the edit line at columns 4 to 15 of row 10 the limits are its two
  ends, and a reverse scan standing on the left limit stops there at once.
\<close>

theorem WordByWordSelection_stops_witness:
  "WordByWordSelection_limits editline_console (s_GetCurrentBufferEdges editline_console)
     = (\<lparr>X = 4, Y = 10\<rparr>, \<lparr>X = 15, Y = 10\<rparr>)
   \<and> WordByWordSelection_loop editline_console True (s_GetCurrentBufferEdges editline_console)
       \<lparr>X = 4, Y = 10\<rparr> \<lparr>X = 15, Y = 10\<rparr> \<lparr>X = 4, Y = 10\<rparr> False
     = Some (\<lparr>X = 4, Y = 10\<rparr>, False)"
  using WordByWordSelection_stops [of editline_console "s_GetCurrentBufferEdges editline_console"
      "\<lparr>X = 4, Y = 10\<rparr>" "\<lparr>X = 4, Y = 10\<rparr>" "\<lparr>X = 15, Y = 10\<rparr>" True False]
    editline_console_boundaries
  by simp

section \<open>What the readers depend on\<close>

lemma GetInputLineBoundaries_frame:
  "ScreenBufferSize s' = ScreenBufferSize s \<Longrightarrow> lpCookedReadData s' = lpCookedReadData s \<Longrightarrow>
   CursorPosition s' = CursorPosition s \<Longrightarrow>
   s_GetInputLineBoundaries s' = s_GetInputLineBoundaries s"
  by (simp add: s_GetInputLineBoundaries_def s_GetCurrentBufferEdges_def Let_def
      split: option.splits)

lemma GetKAttr_frame: "Rows s' = Rows s \<Longrightarrow> GetKAttr s' c = GetKAttr s c"
  by (simp add: GetKAttr_def GetRowByOffset_def)

lemma GetChar_frame: "Rows s' = Rows s \<Longrightarrow> GetChar s' c = GetChar s c"
  by (simp add: GetChar_def GetRowByOffset_def)

lemma GetCurrentBufferEdges_frame:
  "ScreenBufferSize s' = ScreenBufferSize s \<Longrightarrow>
   s_GetCurrentBufferEdges s' = s_GetCurrentBufferEdges s"
  by (simp add: s_GetCurrentBufferEdges_def)

section \<open>Shift+Home in line selection\<close>

text \<open>
  C4. For Shift+Home the movement sets the column of the selection point to the column
  of the edit-line start exactly when edit-line boundaries are available, the point is
  strictly after the edit-line start in reading order, and the point is on the row of
  the edit-line start; in every other case, a point already at the edit-line start
  included, it sets the column to 0. The row is unchanged in both cases.
\<close>

theorem LineSelection_shift_home:
  assumes "IsShiftOnly k" and "VirtualKey k = VK_HOME"
  shows "(\<forall>st en. s_GetInputLineBoundaries s = Some (st, en)
            \<and> (Y st < Y p \<or> (Y st = Y p \<and> X st < X p)) \<and> Y st = Y p \<longrightarrow>
            LineSelection_move s k e a p = Some (p\<lparr>X := X st\<rparr>)) \<and>
         (\<not> (\<exists>st en. s_GetInputLineBoundaries s = Some (st, en)
            \<and> (Y st < Y p \<or> (Y st = Y p \<and> X st < X p)) \<and> Y st = Y p) \<longrightarrow>
            LineSelection_move s k e a p = Some (p\<lparr>X := 0\<rparr>)) \<and>
         (\<forall>q. LineSelection_move s k e a p = Some q \<longrightarrow> Y q = Y p)"
proof -
  have home: "LineSelection_move s k e a p =
      (case s_GetInputLineBoundaries s of
         Some (st, en) \<Rightarrow>
           if s_CompareCoords p st > 0 \<and> Y st = Y p then Some (p\<lparr>X := X st\<rparr>)
           else Some (p\<lparr>X := 0\<rparr>)
       | None \<Rightarrow> Some (p\<lparr>X := 0\<rparr>))"
    using assms by (simp add: LineSelection_move_def VK_defs)
  have gt: "s_CompareCoords p st > 0 \<longleftrightarrow> Y st < Y p \<or> (Y st = Y p \<and> X st < X p)" for st
    by (auto simp: s_CompareCoords_def)
  show ?thesis
    unfolding home by (auto simp: gt split: option.splits)
qed

text \<open>
  C4, witness: in the scenario the handler extends the selection to column 4 of row 10
  on the first Shift+Home, and to column 0 of row 10 on the second.
\<close>

theorem LineSelection_shift_home_witness:
  "map_option (\<lambda>(handled, s'). (handled, calls s'))
     (HandleKeyboardLineSelectionEvent (home_console 8) (shift_key VK_HOME))
   = Some (True, [SetKeyboardTextSelectionUsed, ExtendSelection \<lparr>X = 4, Y = 10\<rparr>])
   \<and> map_option (\<lambda>(handled, s'). (handled, calls s'))
     (HandleKeyboardLineSelectionEvent (home_console 4) (shift_key VK_HOME))
   = Some (True, [SetKeyboardTextSelectionUsed, ExtendSelection \<lparr>X = 0, Y = 10\<rparr>])"
proof -
  have key: "IsShiftOnly (shift_key VK_HOME)" "VirtualKey (shift_key VK_HOME) = VK_HOME"
    "s_IsValidKeyboardLineSelection (shift_key VK_HOME)"
    by (simp_all add: IsShiftOnly_def shift_key_def s_IsValidKeyboardLineSelection_def)
  let ?s = "\<lambda>left. record_call SetKeyboardTextSelectionUsed (home_console left)"
  have sel: "IsInSelectingState (home_console left)" for left
    by (simp add: IsInSelectingState_def home_console_def editline_console_def
        example_console_def)
  have started: "LineSelection_begin (home_console left) = ?s left" for left
    using sel [of left]
    by (simp add: LineSelection_begin_def IsInSelectingState_def record_call_def)
  have bnd: "s_GetInputLineBoundaries (?s left)
      = Some (\<lparr>X = 4, Y = 10\<rparr>, \<lparr>X = 15, Y = 10\<rparr>)" for left
    by (rule trans [OF GetInputLineBoundaries_frame editline_console_boundaries])
      (simp_all add: record_call_def home_console_def)
  have attr: "GetKAttr (?s left) \<lparr>X = x, Y = 10\<rparr> = Some 0" if "0 \<le> x" "x < 80" for left x
    using that
    by (simp add: GetKAttr_def GetRowByOffset_def record_call_def home_console_def
        editline_console_def example_console_def blank_row_def)
  have point: "LineSelection_point (?s left) = \<lparr>X = left, Y = 10\<rparr>" if "left \<le> 8" for left
    using that
    by (auto simp: LineSelection_point_def record_call_def home_console_def Let_def)
  have log: "calls (?s left) = [SetKeyboardTextSelectionUsed]" for left
    by (simp add: record_call_def home_console_def editline_console_def example_console_def)
  have first: "LineSelection_move (?s 8) (shift_key VK_HOME) e a \<lparr>X = 8, Y = 10\<rparr>
      = Some \<lparr>X = 4, Y = 10\<rparr>" for e a
    using LineSelection_shift_home [OF key(1,2), of "?s 8" "\<lparr>X = 8, Y = 10\<rparr>" e a] bnd [of 8]
    by simp
  have second: "LineSelection_move (?s 4) (shift_key VK_HOME) e a \<lparr>X = 4, Y = 10\<rparr>
      = Some \<lparr>X = 0, Y = 10\<rparr>" for e a
    using LineSelection_shift_home [OF key(1,2), of "?s 4" "\<lparr>X = 4, Y = 10\<rparr>" e a] bnd [of 4]
    by simp
  show ?thesis
    by (simp add: HandleKeyboardLineSelectionEvent_def Let_def key sel started point first second
        LineSelection_avoid_trailing_def attr IsTrailingByte_def log
        record_call_def [of "ExtendSelection c" for c])
qed

section \<open>The selection point and trailing halves\<close>

lemma GetKAttr_within:
  assumes "rows_fit s" and "GetKAttr s c = Some a"
  shows "within_edges (s_GetCurrentBufferEdges s) c"
proof -
  from assms(2) have y: "0 \<le> Y c" "Y c < int (length (Rows s))"
    by (auto simp: GetKAttr_def GetRowByOffset_def split: if_splits option.splits)
  then have "Rows s ! nat (Y c) \<in> set (Rows s)"
    by simp
  with assms(1) have "int (length (KAttrs (Rows s ! nat (Y c)))) \<le> X (ScreenBufferSize s)"
    by (simp add: rows_fit_def)
  moreover from assms(2) y have "0 \<le> X c" "X c < int (length (KAttrs (Rows s ! nat (Y c))))"
    by (auto simp: GetKAttr_def GetRowByOffset_def split: if_splits)
  ultimately have "0 \<le> X c" "X c < X (ScreenBufferSize s)"
    by linarith+
  moreover from y assms(1) have "Y c < Y (ScreenBufferSize s)"
    by (simp add: rows_fit_def)
  ultimately show ?thesis
    using y by (simp add: within_edges_def s_GetCurrentBufferEdges_def)
qed

lemma avoid_trailing_cases:
  assumes "LineSelection_avoid_trailing s e moved = Some final"
  shows "final =
      (if trailing_at s moved
       then (if fst (s_DoDecrementScreenCoordinate e moved)
             then snd (s_DoDecrementScreenCoordinate e moved)
             else snd (s_DoIncrementScreenCoordinate e moved))
       else moved)"
  using assms
  by (auto simp: LineSelection_avoid_trailing_def trailing_at_def
      split: option.splits if_splits prod.splits bool.splits dest: step_failed_stays)

lemma avoid_trailing_result:
  assumes run: "LineSelection_avoid_trailing s (s_GetCurrentBufferEdges s) moved = Some final"
    and fit: "rows_fit s"
    and cells: "1 < X (ScreenBufferSize s) \<or> 1 < Y (ScreenBufferSize s)"
    and glyphs: "no_adjacent_trailing s"
  shows "\<not> trailing_at s final"
proof (cases "trailing_at s moved")
  case False
  with avoid_trailing_cases [OF run] show ?thesis
    by simp
next
  case True
  let ?e = "s_GetCurrentBufferEdges s"
  from True obtain a where "GetKAttr s moved = Some a"
    by (auto simp: trailing_at_def split: option.splits)
  from GetKAttr_within [OF fit this] have inside: "within_edges ?e moved" .
  obtain ok m where dec: "s_DoDecrementScreenCoordinate ?e moved = (ok, m)"
    by (cases "s_DoDecrementScreenCoordinate ?e moved")
  show ?thesis
  proof (cases ok)
    case True
    with dec avoid_trailing_cases [OF run] \<open>trailing_at s moved\<close> have "final = m"
      by simp
    from inc_after_dec [OF inside] dec True
    have "s_DoIncrementScreenCoordinate ?e m = (True, moved)"
      by simp
    with glyphs \<open>trailing_at s moved\<close> have "\<not> trailing_at s m"
      unfolding no_adjacent_trailing_def by blast
    with \<open>final = m\<close> show ?thesis
      by simp
  next
    case False
    with dec avoid_trailing_cases [OF run] \<open>trailing_at s moved\<close>
    have final: "final = snd (s_DoIncrementScreenCoordinate ?e moved)"
      by simp
    from dec False inside have "X moved = 0" "Y moved = 0"
      by (auto simp: s_DoDecrementScreenCoordinate_def within_edges_def
          s_GetCurrentBufferEdges_def split: if_splits)
    with cells have "fst (s_DoIncrementScreenCoordinate ?e moved)"
      by (auto simp: s_DoIncrementScreenCoordinate_def s_GetCurrentBufferEdges_def)
    then have "s_DoIncrementScreenCoordinate ?e moved = (True, final)"
      using final by (cases "s_DoIncrementScreenCoordinate ?e moved") simp
    with glyphs \<open>trailing_at s moved\<close> show ?thesis
      unfolding no_adjacent_trailing_def by blast
  qed
qed

lemma LineSelection_begin_frame:
  "Rows (LineSelection_begin s) = Rows s"
  "ScreenBufferSize (LineSelection_begin s) = ScreenBufferSize s"
  "calls (LineSelection_begin s) = calls s @ [SetKeyboardTextSelectionUsed]
   \<or> calls (LineSelection_begin s) = calls s @ [SetKeyboardTextSelectionUsed, ShowSelection]"
  by (simp_all add: LineSelection_begin_def Let_def record_call_def AlignAlternateSelection_def
      InitializeMouseSelection_def)

lemma trailing_at_frame: "Rows s' = Rows s \<Longrightarrow> trailing_at s' c = trailing_at s c"
  using GetKAttr_frame [of s' s c] by (simp add: trailing_at_def)

lemma LineSelection_avoid_trailing_frame:
  "Rows s' = Rows s \<Longrightarrow>
   LineSelection_avoid_trailing s' e c = LineSelection_avoid_trailing s e c"
  using GetKAttr_frame [of s' s c] by (simp add: LineSelection_avoid_trailing_def)

lemma glyphs_paired_no_adjacent_trailing:
  "glyphs_paired s \<Longrightarrow> no_adjacent_trailing s"
  unfolding glyphs_paired_def no_adjacent_trailing_def by blast

text \<open>
  C1. For every valid Shift or Shift+Ctrl key that the handler handles, on a buffer
  whose rows lie within its size, that has more than one cell and in which no trailing
  half follows a trailing half (as in every buffer with paired glyph halves): unless the
  key is the Shift+Left or Shift+Right that only starts a new selection, the handler
  extends the selection, once, to the computed movement, or, if that is on a trailing
  half, to the movement stepped one position back, or one position forward when the
  step back fails; and no point passed to \<open>ExtendSelection\<close> is on a trailing half.
\<close>

theorem LineSelection_extends_off_trailing:
  assumes fit: "rows_fit s"
    and cells: "1 < X (ScreenBufferSize s) \<or> 1 < Y (ScreenBufferSize s)"
    and glyphs: "no_adjacent_trailing s"
    and key: "s_IsValidKeyboardLineSelection k"
    and run: "HandleKeyboardLineSelectionEvent s k = Some (handled, s')"
  shows "handled \<and>
    (if \<not> IsInSelectingState s \<and> IsShiftOnly k
        \<and> (VirtualKey k = VK_LEFT \<or> VirtualKey k = VK_RIGHT)
     then s' = LineSelection_begin s
     else (\<exists>moved final.
         LineSelection_move (LineSelection_begin s) k (s_GetCurrentBufferEdges s)
           (coordSelectionAnchor (LineSelection_begin s))
           (LineSelection_point (LineSelection_begin s)) = Some moved \<and>
         final =
           (if trailing_at s moved
            then (if fst (s_DoDecrementScreenCoordinate (s_GetCurrentBufferEdges s) moved)
                  then snd (s_DoDecrementScreenCoordinate (s_GetCurrentBufferEdges s) moved)
                  else snd (s_DoIncrementScreenCoordinate (s_GetCurrentBufferEdges s) moved))
            else moved) \<and>
         \<not> trailing_at s final \<and>
         s' = record_call (ExtendSelection final) (LineSelection_begin s))) \<and>
    (\<exists>new. calls s' = calls s @ new \<and>
       (\<forall>final. ExtendSelection final \<in> set new \<longrightarrow> \<not> trailing_at s final))"
proof -
  let ?s2 = "LineSelection_begin s"
  let ?e = "s_GetCurrentBufferEdges s"
  have e2: "s_GetCurrentBufferEdges ?s2 = ?e"
    by (rule GetCurrentBufferEdges_frame) (rule LineSelection_begin_frame)
  obtain pre where pre: "calls ?s2 = calls s @ pre" "\<forall>c. ExtendSelection c \<notin> set pre"
    using LineSelection_begin_frame(3) [of s] by auto
  show ?thesis
  proof (cases "\<not> IsInSelectingState s \<and> IsShiftOnly k
      \<and> (VirtualKey k = VK_LEFT \<or> VirtualKey k = VK_RIGHT)")
    case True
    with run key have res: "handled" "s' = ?s2"
      by (auto simp: HandleKeyboardLineSelectionEvent_def Let_def)
    have "\<exists>new. calls s' = calls s @ new \<and>
       (\<forall>final. ExtendSelection final \<in> set new \<longrightarrow> \<not> trailing_at s final)"
      using res(2) pre by auto
    with res True show ?thesis
      by simp
  next
    case False
    with run key obtain moved final where
      moved: "LineSelection_move ?s2 k ?e (coordSelectionAnchor ?s2) (LineSelection_point ?s2)
        = Some moved"
      and final: "LineSelection_avoid_trailing ?s2 ?e moved = Some final"
      and res: "handled" "s' = record_call (ExtendSelection final) ?s2"
      by (auto simp: HandleKeyboardLineSelectionEvent_def Let_def e2
          split: option.splits if_splits)
    have final': "LineSelection_avoid_trailing s ?e moved = Some final"
      using final LineSelection_avoid_trailing_frame [OF LineSelection_begin_frame(1), of s ?e moved]
      by simp
    have off: "\<not> trailing_at s final"
      by (rule avoid_trailing_result [OF final' fit cells glyphs])
    note shape = avoid_trailing_cases [OF final']
    have "calls s' = calls s @ (pre @ [ExtendSelection final])"
      using res(2) pre(1) by (simp add: record_call_def)
    then have log: "\<exists>new. calls s' = calls s @ new \<and>
       (\<forall>final. ExtendSelection final \<in> set new \<longrightarrow> \<not> trailing_at s final)"
      using pre(2) off by auto
    have ext: "\<exists>moved final.
         LineSelection_move ?s2 k ?e (coordSelectionAnchor ?s2) (LineSelection_point ?s2)
           = Some moved \<and>
         final =
           (if trailing_at s moved
            then (if fst (s_DoDecrementScreenCoordinate ?e moved)
                  then snd (s_DoDecrementScreenCoordinate ?e moved)
                  else snd (s_DoIncrementScreenCoordinate ?e moved))
            else moved) \<and>
         \<not> trailing_at s final \<and>
         s' = record_call (ExtendSelection final) ?s2"
      using moved shape off res(2) by blast
    from res(1) False ext log show ?thesis
      by (simp only: if_False simp_thms)
  qed
qed

lemma selection_console_run:
  assumes attr: "GetKAttr (selection_console row right) \<lparr>X = right, Y = 1\<rparr> = Some a"
  shows "HandleKeyboardLineSelectionEvent (selection_console row right) (shift_key VK_DOWN)
    = map_option (\<lambda>final. (True,
          record_call (ExtendSelection final)
            (record_call SetKeyboardTextSelectionUsed (selection_console row right))))
        (LineSelection_avoid_trailing (selection_console row right)
           \<lparr>Left = 0, Top = 0, Right = 79, Bottom = 299\<rparr> \<lparr>X = right, Y = 1\<rparr>)"
proof -
  let ?s = "selection_console row right"
  let ?s2 = "record_call SetKeyboardTextSelectionUsed ?s"
  have key: "IsShiftOnly (shift_key VK_DOWN)" "VirtualKey (shift_key VK_DOWN) = VK_DOWN"
    "s_IsValidKeyboardLineSelection (shift_key VK_DOWN)"
    by (simp_all add: IsShiftOnly_def shift_key_def s_IsValidKeyboardLineSelection_def)
  have sel: "IsInSelectingState ?s"
    by (simp add: IsInSelectingState_def selection_console_def example_console_def)
  have started: "LineSelection_begin ?s = ?s2"
    using sel by (simp add: LineSelection_begin_def IsInSelectingState_def record_call_def)
  have point: "LineSelection_point ?s2 = \<lparr>X = right, Y = 0\<rparr>"
    by (simp add: LineSelection_point_def record_call_def selection_console_def Let_def)
  have e: "s_GetCurrentBufferEdges ?s2 = \<lparr>Left = 0, Top = 0, Right = 79, Bottom = 299\<rparr>"
    by (simp add: s_GetCurrentBufferEdges_def record_call_def selection_console_def
        example_console_def)
  have move: "LineSelection_move ?s2 (shift_key VK_DOWN)
      \<lparr>Left = 0, Top = 0, Right = 79, Bottom = 299\<rparr> anchor \<lparr>X = right, Y = 0\<rparr>
      = Some \<lparr>X = right, Y = 1\<rparr>" for anchor
    by (simp add: LineSelection_move_def Let_def shift_key_def IsShiftOnly_def VK_defs)
  have same: "LineSelection_avoid_trailing ?s2 e' c = LineSelection_avoid_trailing ?s e' c"
    for e' c
    by (rule LineSelection_avoid_trailing_frame) (simp add: record_call_def)
  show ?thesis
    by (simp add: HandleKeyboardLineSelectionEvent_def Let_def key sel started point e move same
        split: option.splits)
qed

lemma selection_console_attr:
  "0 \<le> x \<Longrightarrow> x < int (length (KAttrs row)) \<Longrightarrow>
   GetKAttr (selection_console row right) \<lparr>X = x, Y = 1\<rparr> = Some (KAttrs row ! nat x)"
  by (simp add: GetKAttr_def GetRowByOffset_def selection_console_def example_console_def)

lemma glyph_row_trailing:
  assumes "trailing_at (selection_console glyph_row right) c"
  shows "c = \<lparr>X = 3, Y = 1\<rparr> \<or> c = \<lparr>X = 6, Y = 1\<rparr>"
proof -
  obtain x y where c: "c = \<lparr>X = x, Y = y\<rparr>"
    by (cases c) simp
  from assms c have y: "0 \<le> y" "y < 300"
    by (auto simp: trailing_at_def GetKAttr_def GetRowByOffset_def selection_console_def
        example_console_def split: option.splits if_splits)
  have blank: "\<not> trailing_at (selection_console glyph_row right) \<lparr>X = x, Y = y\<rparr>" if "y \<noteq> 1"
    using that y
    by (auto simp: trailing_at_def GetKAttr_def GetRowByOffset_def selection_console_def
        example_console_def blank_row_def IsTrailingByte_def nth_Cons' split: option.splits)
  with assms c have y1: "y = 1"
    by auto
  from assms c y1 have x: "0 \<le> x" "x < 80"
    by (auto simp: trailing_at_def GetKAttr_def GetRowByOffset_def selection_console_def
        example_console_def glyph_row_def split: option.splits if_splits)
  then have "IsTrailingByte (KAttrs glyph_row ! nat x)"
    using assms c y1 by (simp add: trailing_at_def selection_console_attr glyph_row_def)
  then have "nat x = 3 \<or> nat x = 6"
    using x
    by (auto simp: glyph_row_def IsTrailingByte_def ATTR_TRAILING_BYTE_def nth_append nth_Cons'
        split: if_splits)
  with x c y1 show ?thesis
    by auto
qed

lemma glyph_row_well_formed:
  "rows_fit (selection_console glyph_row right)"
  "glyphs_paired (selection_console glyph_row right)"
proof -
  let ?s = "selection_console glyph_row right"
  show "rows_fit ?s"
    by (simp add: rows_fit_def selection_console_def example_console_def glyph_row_def
        blank_row_def)
  have e: "s_GetCurrentBufferEdges ?s = \<lparr>Left = 0, Top = 0, Right = 79, Bottom = 299\<rparr>"
    by (simp add: s_GetCurrentBufferEdges_def selection_console_def example_console_def)
  have attr: "GetKAttr ?s \<lparr>X = 2, Y = 1\<rparr> = Some 1" "GetKAttr ?s \<lparr>X = 5, Y = 1\<rparr> = Some 1"
    by (simp_all add: selection_console_attr glyph_row_def)
  have lead: "leading_at ?s \<lparr>X = 2, Y = 1\<rparr> \<and> \<not> trailing_at ?s \<lparr>X = 2, Y = 1\<rparr>"
    "leading_at ?s \<lparr>X = 5, Y = 1\<rparr> \<and> \<not> trailing_at ?s \<lparr>X = 5, Y = 1\<rparr>"
    by (simp_all add: leading_at_def trailing_at_def attr IsLeadingByte_def IsTrailingByte_def
        ATTR_LEADING_BYTE_def ATTR_TRAILING_BYTE_def)
  show "glyphs_paired ?s"
    unfolding glyphs_paired_def e
  proof (intro allI impI)
    fix c c'
    assume a: "trailing_at ?s c' \<and>
        s_DoIncrementScreenCoordinate \<lparr>Left = 0, Top = 0, Right = 79, Bottom = 299\<rparr> c
        = (True, c')"
    then have "c' = \<lparr>X = 3, Y = 1\<rparr> \<or> c' = \<lparr>X = 6, Y = 1\<rparr>"
      by (auto dest: glyph_row_trailing)
    moreover obtain x y where c: "c = \<lparr>X = x, Y = y\<rparr>"
      by (cases c) simp
    ultimately have "c = \<lparr>X = 2, Y = 1\<rparr> \<or> c = \<lparr>X = 5, Y = 1\<rparr>"
      using a by (auto simp: s_DoIncrementScreenCoordinate_def split: if_splits)
    with lead show "leading_at ?s c \<and> \<not> trailing_at ?s c"
      by auto
  qed
qed

text \<open>
  C1, witness: with the selection point in column 3 of the first row, Shift+Down lands
  on the trailing half in column 3 of the glyph row, and the selection is extended to
  the leading half in column 2.
\<close>

theorem LineSelection_extends_off_trailing_witness:
  "map_option (\<lambda>(handled, s'). (handled, calls s'))
     (HandleKeyboardLineSelectionEvent (selection_console glyph_row 3) (shift_key VK_DOWN))
   = Some (True, [SetKeyboardTextSelectionUsed, ExtendSelection \<lparr>X = 2, Y = 1\<rparr>])
   \<and> \<not> trailing_at (selection_console glyph_row 3) \<lparr>X = 2, Y = 1\<rparr>"
proof -
  let ?s = "selection_console glyph_row 3"
  have attr: "GetKAttr ?s \<lparr>X = 3, Y = 1\<rparr> = Some 2"
    by (simp add: selection_console_attr glyph_row_def)
  have run: "HandleKeyboardLineSelectionEvent ?s (shift_key VK_DOWN)
      = Some (True, record_call (ExtendSelection \<lparr>X = 2, Y = 1\<rparr>)
          (record_call SetKeyboardTextSelectionUsed ?s))"
    by (simp add: selection_console_run [OF attr] LineSelection_avoid_trailing_def attr
        IsTrailingByte_def ATTR_TRAILING_BYTE_def s_DoDecrementScreenCoordinate_def)
  have log: "calls (record_call (ExtendSelection \<lparr>X = 2, Y = 1\<rparr>)
      (record_call SetKeyboardTextSelectionUsed ?s))
      = calls ?s @ [SetKeyboardTextSelectionUsed, ExtendSelection \<lparr>X = 2, Y = 1\<rparr>]"
    by (simp add: record_call_def)
  have empty: "calls ?s = []"
    by (simp add: selection_console_def example_console_def)
  have key: "s_IsValidKeyboardLineSelection (shift_key VK_DOWN)"
    by (simp add: IsShiftOnly_def shift_key_def s_IsValidKeyboardLineSelection_def)
  have cells: "1 < X (ScreenBufferSize ?s) \<or> 1 < Y (ScreenBufferSize ?s)"
    by (simp add: selection_console_def example_console_def)
  have glyphs: "no_adjacent_trailing ?s"
    by (rule glyphs_paired_no_adjacent_trailing) (rule glyph_row_well_formed)
  from LineSelection_extends_off_trailing [OF glyph_row_well_formed(1) cells glyphs key run]
  have "\<not> trailing_at ?s \<lparr>X = 2, Y = 1\<rparr>"
    unfolding log by auto
  then show ?thesis
    by (simp add: run log empty)
qed

section \<open>Mark mode: step sizes and the collapsed selection\<close>

lemma MarkMode_move_frame:
  "Rows (MarkMode_move s k r l) = Rows s"
  "KeyState (MarkMode_move s k r l) = KeyState s"
  "dwSelectionFlags (MarkMode_move s k r l) = dwSelectionFlags s"
  "fUseAlternateSelection (MarkMode_move s k r l) = fUseAlternateSelection s"
  "calls (MarkMode_move s k r l) = calls s"
  by (simp_all add: MarkMode_move_def Cursor_defs Let_def)

lemma MarkMode_reset_anchor_cursor:
  "CursorPosition (MarkMode_reset_anchor s) = CursorPosition s"
  by (simp add: MarkMode_reset_anchor_def Cursor_defs Let_def record_call_def)

lemma MarkMode_cursor_after:
  assumes "HandleMarkModeSelectionNav s k = Some (True, s')"
  shows "\<exists>r l. MarkMode_NextRightX s (CursorPosition s) = Some r \<and>
      MarkMode_NextLeftX s (CursorPosition s) = Some l \<and>
      CursorPosition s' = CursorPosition (MarkMode_move s k r l)"
  using assms
  by (auto simp: HandleMarkModeSelectionNav_def Let_def MarkMode_reset_anchor_cursor
      record_call_def CheckAndSetAlternateSelection_def split: option.splits if_splits)

text \<open>
  C6 (as amended). The step to the right is 2 columns when the cell under the cursor is
  a leading half, else 1, and Right moves the cursor by it when the result stays inside
  the buffer width. With the cursor in a column greater than 0 the step to the left is:
  2 when the cell immediately left is a trailing half; otherwise, when that cell is a
  leading half and the cursor column is at least 2, 3 if the cell two to the left is a
  trailing half and 2 if it is not; and 1 in all other positions. Left moves the cursor
  by that step. In column 0 the step is 0 and Left does not move the cursor.
\<close>

theorem MarkMode_step_sizes:
  "(\<forall>r. MarkMode_NextRightX s c = Some r \<longrightarrow> r = (if leading_at s c then 2 else 1)) \<and>
   (\<forall>l. 0 < X c \<and> MarkMode_NextLeftX s c = Some l \<longrightarrow>
      l = (if trailing_at s (c\<lparr>X := X c - 1\<rparr>) then 2
           else if leading_at s (c\<lparr>X := X c - 1\<rparr>) \<and> 1 < X c
                then (if trailing_at s (c\<lparr>X := X c - 2\<rparr>) then 3 else 2)
           else 1)) \<and>
   (X c \<le> 0 \<longrightarrow> MarkMode_NextLeftX s c = Some 0) \<and>
   (\<forall>s'. HandleMarkModeSelectionNav s k = Some (True, s') \<and> VirtualKey k = VK_RIGHT \<longrightarrow>
      (\<exists>r. MarkMode_NextRightX s (CursorPosition s) = Some r \<and>
         CursorPosition s' =
           (if X (CursorPosition s) + r < X (ScreenBufferSize s)
            then (CursorPosition s)\<lparr>X := X (CursorPosition s) + r\<rparr>
            else CursorPosition s))) \<and>
   (\<forall>s'. HandleMarkModeSelectionNav s k = Some (True, s') \<and> VirtualKey k = VK_LEFT \<longrightarrow>
      (\<exists>l. MarkMode_NextLeftX s (CursorPosition s) = Some l \<and>
         CursorPosition s' =
           (if 0 < X (CursorPosition s)
            then (CursorPosition s)\<lparr>X := X (CursorPosition s) - l\<rparr>
            else CursorPosition s)))"
proof (intro conjI allI impI)
  fix r
  assume "MarkMode_NextRightX s c = Some r"
  then show "r = (if leading_at s c then 2 else 1)"
    by (auto simp: MarkMode_NextRightX_def leading_at_def split: option.splits)
next
  fix l
  assume "0 < X c \<and> MarkMode_NextLeftX s c = Some l"
  then show "l = (if trailing_at s (c\<lparr>X := X c - 1\<rparr>) then 2
           else if leading_at s (c\<lparr>X := X c - 1\<rparr>) \<and> 1 < X c
                then (if trailing_at s (c\<lparr>X := X c - 2\<rparr>) then 3 else 2)
           else 1)"
    by (auto simp: MarkMode_NextLeftX_def leading_at_def trailing_at_def
        split: option.splits if_splits)
next
  assume "X c \<le> 0"
  then show "MarkMode_NextLeftX s c = Some 0"
    by (simp add: MarkMode_NextLeftX_def)
next
  fix s'
  assume "HandleMarkModeSelectionNav s k = Some (True, s') \<and> VirtualKey k = VK_RIGHT"
  then show "\<exists>r. MarkMode_NextRightX s (CursorPosition s) = Some r \<and>
         CursorPosition s' =
           (if X (CursorPosition s) + r < X (ScreenBufferSize s)
            then (CursorPosition s)\<lparr>X := X (CursorPosition s) + r\<rparr>
            else CursorPosition s)"
    by (auto dest!: MarkMode_cursor_after simp: MarkMode_move_def Cursor_defs Let_def)
next
  fix s'
  assume "HandleMarkModeSelectionNav s k = Some (True, s') \<and> VirtualKey k = VK_LEFT"
  then show "\<exists>l. MarkMode_NextLeftX s (CursorPosition s) = Some l \<and>
         CursorPosition s' =
           (if 0 < X (CursorPosition s)
            then (CursorPosition s)\<lparr>X := X (CursorPosition s) - l\<rparr>
            else CursorPosition s)"
    by (auto dest!: MarkMode_cursor_after simp: MarkMode_move_def Cursor_defs Let_def VK_defs)
qed

lemma mark_console_attr:
  "0 \<le> x' \<Longrightarrow> x' < int (length (KAttrs row)) \<Longrightarrow>
   GetKAttr (mark_console row x) \<lparr>X = x', Y = 1\<rparr> = Some (KAttrs row ! nat x')"
  by (simp add: GetKAttr_def GetRowByOffset_def mark_console_def example_console_def)

lemma mark_console_fields:
  "CursorPosition (mark_console row x) = \<lparr>X = x, Y = 1\<rparr>"
  "ScreenBufferSize (mark_console row x) = \<lparr>X = 80, Y = 300\<rparr>"
  "KeyState (mark_console row x) = (\<lambda>k. 0)"
  by (simp_all add: mark_console_def example_console_def)

lemma mark_console_run:
  assumes "MarkMode_NextRightX (mark_console row x) \<lparr>X = x, Y = 1\<rparr> = Some r"
    and "MarkMode_NextLeftX (mark_console row x) \<lparr>X = x, Y = 1\<rparr> = Some l"
    and "vk = VK_LEFT \<or> vk = VK_RIGHT"
  shows "HandleMarkModeSelectionNav (mark_console row x) (plain_key vk)
    = Some (True, MarkMode_reset_anchor (MarkMode_move (mark_console row x) (plain_key vk) r l))"
  using assms
  by (auto simp: HandleMarkModeSelectionNav_def Let_def mark_console_fields MarkMode_move_frame
      plain_key_def)

text \<open>
  C6, witness: on the row laid out as the unit tests fill it, Right from the leading
  half in column 2 moves the cursor 2 columns to column 4.
\<close>

theorem MarkMode_step_sizes_witness:
  "map_option (\<lambda>(handled, s'). (handled, CursorPosition s'))
     (HandleMarkModeSelectionNav (mark_console glyph_row 2) (plain_key VK_RIGHT))
   = Some (True, \<lparr>X = 4, Y = 1\<rparr>)
   \<and> leading_at (mark_console glyph_row 2) \<lparr>X = 2, Y = 1\<rparr>"
proof -
  let ?s = "mark_console glyph_row 2"
  have attr: "GetKAttr ?s \<lparr>X = 2, Y = 1\<rparr> = Some 1" "GetKAttr ?s \<lparr>X = 1, Y = 1\<rparr> = Some 0"
    by (simp_all add: mark_console_attr glyph_row_def)
  have lead: "leading_at ?s \<lparr>X = 2, Y = 1\<rparr>"
    by (simp add: leading_at_def attr IsLeadingByte_def ATTR_LEADING_BYTE_def)
  have right: "MarkMode_NextRightX ?s \<lparr>X = 2, Y = 1\<rparr> = Some 2"
    by (simp add: MarkMode_NextRightX_def attr IsLeadingByte_def ATTR_LEADING_BYTE_def)
  have left: "MarkMode_NextLeftX ?s \<lparr>X = 2, Y = 1\<rparr> = Some 1"
    by (simp add: MarkMode_NextLeftX_def attr IsLeadingByte_def IsTrailingByte_def
        ATTR_LEADING_BYTE_def ATTR_TRAILING_BYTE_def)
  have key: "VirtualKey (plain_key VK_RIGHT) = VK_RIGHT"
    by (simp add: plain_key_def)
  note run = mark_console_run [OF right left, of VK_RIGHT, simplified]
  from MarkMode_step_sizes [of ?s "\<lparr>X = 2, Y = 1\<rparr>" "plain_key VK_RIGHT"] run key
  have "CursorPosition
      (MarkMode_reset_anchor (MarkMode_move ?s (plain_key VK_RIGHT) 2 1)) = \<lparr>X = 4, Y = 1\<rparr>"
    by (simp add: mark_console_fields right)
  with run lead show ?thesis
    by simp
qed

text \<open>
  C6, counterexample to the claim as stated: with the cursor in column 3 of that row the
  cell immediately left is a leading half, not a trailing half, and the cell two to the
  left is not a trailing half, yet Left moves the cursor 2 columns to column 1.
\<close>

theorem MarkMode_left_step_counterexample:
  "map_option (\<lambda>(handled, s'). (handled, CursorPosition s'))
     (HandleMarkModeSelectionNav (mark_console glyph_row 3) (plain_key VK_LEFT))
   = Some (True, \<lparr>X = 1, Y = 1\<rparr>)
   \<and> \<not> trailing_at (mark_console glyph_row 3) \<lparr>X = 2, Y = 1\<rparr>
   \<and> \<not> trailing_at (mark_console glyph_row 3) \<lparr>X = 1, Y = 1\<rparr>"
proof -
  let ?s = "mark_console glyph_row 3"
  have attr: "GetKAttr ?s \<lparr>X = 3, Y = 1\<rparr> = Some 2" "GetKAttr ?s \<lparr>X = 2, Y = 1\<rparr> = Some 1"
    "GetKAttr ?s \<lparr>X = 1, Y = 1\<rparr> = Some 0"
    by (simp_all add: mark_console_attr glyph_row_def)
  have right: "MarkMode_NextRightX ?s \<lparr>X = 3, Y = 1\<rparr> = Some 1"
    by (simp add: MarkMode_NextRightX_def attr IsLeadingByte_def ATTR_LEADING_BYTE_def)
  have left: "MarkMode_NextLeftX ?s \<lparr>X = 3, Y = 1\<rparr> = Some 2"
    by (simp add: MarkMode_NextLeftX_def attr IsLeadingByte_def IsTrailingByte_def
        ATTR_LEADING_BYTE_def ATTR_TRAILING_BYTE_def)
  note run = mark_console_run [OF right left, of VK_LEFT, simplified]
  have "CursorPosition (MarkMode_reset_anchor (MarkMode_move ?s (plain_key VK_LEFT) 1 2))
      = \<lparr>X = 1, Y = 1\<rparr>"
    by (simp add: MarkMode_reset_anchor_cursor MarkMode_move_def Cursor_defs Let_def plain_key_def VK_defs
        mark_console_fields)
  then show ?thesis
    by (simp add: run trailing_at_def attr IsTrailingByte_def ATTR_TRAILING_BYTE_def)
qed




section \<open>Color selection: the attribute and the clipped rectangle\<close>

lemma digit_key_cases:
  fixes vk :: WORD
  assumes "0x30 \<le> vk" and "vk \<le> 0x39"
  shows "vk = 0x30 \<or> vk = 0x31 \<or> vk = 0x32 \<or> vk = 0x33 \<or> vk = 0x34 \<or>
    vk = 0x35 \<or> vk = 0x36 \<or> vk = 0x37 \<or> vk = 0x38 \<or> vk = 0x39"
proof -
  have "48 \<le> unat vk" "unat vk \<le> 57"
    using assms by (simp_all add: word_le_nat_alt)
  then have "unat vk = 48 \<or> unat vk = 49 \<or> unat vk = 50 \<or> unat vk = 51 \<or> unat vk = 52
      \<or> unat vk = 53 \<or> unat vk = 54 \<or> unat vk = 55 \<or> unat vk = 56 \<or> unat vk = 57"
    by arith
  moreover have conv: "vk = of_nat n" if "unat vk = n" for n
    using arg_cong [OF that, of "of_nat :: nat \<Rightarrow> WORD"] by simp
  ultimately show ?thesis
    by (elim disjE) (auto dest!: conv)
qed

lemma digit_attr_nibble:
  fixes vk :: WORD
  assumes "0x30 \<le> vk" and "vk \<le> 0x39"
  shows "((ucast vk :: ULONG) - 0x30 + 6) AND 0x0f = ucast vk - 0x30 + 6"
    and "((ucast vk :: ULONG) - 0x30 + 6) AND 0xf0 = 0"
    and "push_bit 4 ((ucast vk :: ULONG) - 0x30 + 6) AND 0x0f = 0"
    and "drop_bit 4 (push_bit 4 ((ucast vk :: ULONG) - 0x30 + 6)) = ucast vk - 0x30 + 6"
  using digit_key_cases [OF assms] by (elim disjE; simp)+

lemma merge_low_nibble: "((a :: ULONG) OR (l AND 0xf0)) AND 0x0f = a AND 0x0f"
  by (simp add: bit.conj_disj_distrib2 and.assoc)

lemma merge_high_nibble: "((a :: ULONG) OR (l AND 0xf0)) AND 0xf0 = (a AND 0xf0) OR (l AND 0xf0)"
  by (simp add: bit.conj_disj_distrib2 and.assoc)

lemma HandleColorSelection_attr:
  assumes "HandleColorSelection n s k = Some (handled, s')"
  shows "(handled \<longleftrightarrow> AltPressed k \<or> CtrlPressed k) \<and>
    passed_colors (calls s') = passed_colors (calls s) @
      (if AltPressed k
       then [((ucast (VirtualKey k) :: ULONG) - 0x30 + 6) OR (ucast (LegacyAttributes s) AND 0xf0)]
       else if CtrlPressed k then [push_bit 4 ((ucast (VirtualKey k) :: ULONG) - 0x30 + 6)]
       else [])"
  using assms
  by (auto simp: HandleColorSelection_def Let_def record_call_def passed_colors_def
      split: if_splits option.splits)

text \<open>
  C7. For every digit key 0 to 9: with Alt held the call is the same as with Ctrl not
  held; it returns handled exactly when Alt or Ctrl is held; the attribute is the digit
  plus 6; with Alt held the attribute handed on has that value in its low nibble and the
  background nibble of the current screen attributes in its high nibble; with Ctrl held
  and Alt not, it is that value shifted into the high nibble with the low nibble zero;
  with neither held no attribute is handed on.
\<close>

theorem ColorSelection_digit_attribute:
  assumes digit: "0x30 \<le> VirtualKey k" "VirtualKey k \<le> 0x39"
    and run: "HandleColorSelection n s k = Some (handled, s')"
  shows "(handled \<longleftrightarrow> AltPressed k \<or> CtrlPressed k) \<and>
    (AltPressed k \<longrightarrow>
       HandleColorSelection n s (k\<lparr>CtrlPressed := False\<rparr>) = Some (handled, s')) \<and>
    (AltPressed k \<longrightarrow>
       (\<exists>ulAttr. passed_colors (calls s') = passed_colors (calls s) @ [ulAttr] \<and>
          ulAttr AND 0x0f = ucast (VirtualKey k) - 0x30 + 6 \<and>
          ulAttr AND 0xf0 = ucast (LegacyAttributes s) AND 0xf0)) \<and>
    (CtrlPressed k \<and> \<not> AltPressed k \<longrightarrow>
       (\<exists>ulAttr. passed_colors (calls s') = passed_colors (calls s) @ [ulAttr] \<and>
          ulAttr = push_bit 4 (ucast (VirtualKey k) - 0x30 + 6) \<and>
          ulAttr AND 0x0f = 0 \<and>
          drop_bit 4 ulAttr = ucast (VirtualKey k) - 0x30 + 6)) \<and>
    (\<not> AltPressed k \<and> \<not> CtrlPressed k \<longrightarrow>
       passed_colors (calls s') = passed_colors (calls s))"
proof -
  note attr = HandleColorSelection_attr [OF run]
  note nib = digit_attr_nibble [OF digit]
  have same: "HandleColorSelection n s (k\<lparr>CtrlPressed := False\<rparr>) = HandleColorSelection n s k"
    if "AltPressed k"
    using that by (simp add: HandleColorSelection_def Let_def)
  have alt: "\<exists>ulAttr. passed_colors (calls s') = passed_colors (calls s) @ [ulAttr] \<and>
      ulAttr AND 0x0f = ucast (VirtualKey k) - 0x30 + 6 \<and>
      ulAttr AND 0xf0 = ucast (LegacyAttributes s) AND 0xf0" if "AltPressed k"
    using that attr nib(1,2) by (simp add: merge_low_nibble merge_high_nibble)
  have ctrl: "\<exists>ulAttr. passed_colors (calls s') = passed_colors (calls s) @ [ulAttr] \<and>
      ulAttr = push_bit 4 (ucast (VirtualKey k) - 0x30 + 6) \<and>
      ulAttr AND 0x0f = 0 \<and>
      drop_bit 4 ulAttr = ucast (VirtualKey k) - 0x30 + 6" if "CtrlPressed k \<and> \<not> AltPressed k"
    using that attr nib(3,4) by simp
  show ?thesis
    using attr same run alt ctrl by auto
qed

text \<open>
  C7, witness: Alt+3 over a one-cell selection, with screen attributes \<open>0x07\<close>, is
  handled and colors the selection with attribute 9 (low nibble 9, background nibble 0).
\<close>

theorem ColorSelection_digit_attribute_witness:
  "map_option (\<lambda>(handled, s'). (handled, calls s'))
     (HandleColorSelection 80 example_console
        \<lparr>VirtualKey = 0x33, ShiftPressed = False, CtrlPressed = True, AltPressed = True\<rparr>)
   = Some (True,
       [ColorSelection \<lparr>Left = 0, Top = 0, Right = 0, Bottom = 0\<rparr> 9, ClearSelection])
   \<and> (9 :: ULONG) AND 0x0f = 9"
proof -
  let ?k = "\<lparr>VirtualKey = 0x33, ShiftPressed = False, CtrlPressed = True, AltPressed = True\<rparr>"
  let ?s' = "record_call ClearSelection
      (record_call (ColorSelection \<lparr>Left = 0, Top = 0, Right = 0, Bottom = 0\<rparr> 9)
         (example_console\<lparr>srSelectionRect := \<lparr>Left = 0, Top = 0, Right = 0, Bottom = 0\<rparr>\<rparr>))"
  have run: "HandleColorSelection 80 example_console ?k = Some (True, ?s')"
    by (simp add: HandleColorSelection_def Let_def ClipToScreenBuffer_def
        s_GetCurrentBufferEdges_def example_console_def)
  have digit: "0x30 \<le> VirtualKey ?k" "VirtualKey ?k \<le> 0x39"
    by simp_all
  have log: "calls ?s' = [ColorSelection \<lparr>Left = 0, Top = 0, Right = 0, Bottom = 0\<rparr> 9,
      ClearSelection]"
    by (simp add: record_call_def example_console_def)
  from ColorSelection_digit_attribute [OF digit run]
  have "\<exists>ulAttr. passed_colors (calls ?s') = passed_colors (calls example_console) @ [ulAttr] \<and>
      ulAttr AND 0x0f = ucast (VirtualKey ?k) - 0x30 + 6"
    by auto
  then have "(9 :: ULONG) AND 0x0f = 9"
    by (simp add: log passed_colors_def example_console_def)
  then show ?thesis
    by (simp add: run log)
qed

text \<open>
  C9. A call with neither Alt nor Ctrl held returns unhandled, and the state it leaves
  differs from the state on entry in the stored selection rectangle, which is replaced
  by its clipping to the screen buffer; the stored rectangle changes exactly when it
  reaches outside the buffer.
\<close>

theorem ColorSelection_unhandled_clips:
  assumes "\<not> AltPressed k" and "\<not> CtrlPressed k"
  shows "HandleColorSelection n s k
      = Some (False, s\<lparr>srSelectionRect := ClipToScreenBuffer s (srSelectionRect s)\<rparr>) \<and>
    (ClipToScreenBuffer s (srSelectionRect s) \<noteq> srSelectionRect s \<longleftrightarrow>
       Left (srSelectionRect s) < 0 \<or> Top (srSelectionRect s) < 0 \<or>
       X (ScreenBufferSize s) - 1 < Right (srSelectionRect s) \<or>
       Y (ScreenBufferSize s) - 1 < Bottom (srSelectionRect s))"
proof -
  obtain l t r b where rect: "srSelectionRect s = \<lparr>Left = l, Top = t, Right = r, Bottom = b\<rparr>"
    by (cases "srSelectionRect s") simp
  have "HandleColorSelection n s k
      = Some (False, s\<lparr>srSelectionRect := ClipToScreenBuffer s (srSelectionRect s)\<rparr>)"
    using assms by (simp add: HandleColorSelection_def Let_def)
  moreover have "ClipToScreenBuffer s (srSelectionRect s) \<noteq> srSelectionRect s \<longleftrightarrow>
       Left (srSelectionRect s) < 0 \<or> Top (srSelectionRect s) < 0 \<or>
       X (ScreenBufferSize s) - 1 < Right (srSelectionRect s) \<or>
       Y (ScreenBufferSize s) - 1 < Bottom (srSelectionRect s)"
    unfolding rect by (auto simp: ClipToScreenBuffer_def s_GetCurrentBufferEdges_def Let_def)
  ultimately show ?thesis
    by simp
qed

text \<open>
  C9, witness: a bare digit 3 over a stored rectangle that reaches to column 100 of the
  80 columns returns unhandled and leaves the rectangle ending at column 79.
\<close>

theorem ColorSelection_unhandled_clips_witness:
  "map_option (\<lambda>(handled, s'). (handled, srSelectionRect s'))
     (HandleColorSelection 80
        (example_console\<lparr>srSelectionRect := \<lparr>Left = 0, Top = 0, Right = 100, Bottom = 0\<rparr>\<rparr>)
        (plain_key 0x33))
   = Some (False, \<lparr>Left = 0, Top = 0, Right = 79, Bottom = 0\<rparr>)
   \<and> srSelectionRect
       (example_console\<lparr>srSelectionRect := \<lparr>Left = 0, Top = 0, Right = 100, Bottom = 0\<rparr>\<rparr>)
     \<noteq> \<lparr>Left = 0, Top = 0, Right = 79, Bottom = 0\<rparr>"
proof -
  have key: "\<not> AltPressed (plain_key 0x33)" "\<not> CtrlPressed (plain_key 0x33)"
    by (simp_all add: plain_key_def)
  show ?thesis
    using ColorSelection_unhandled_clips [OF key, of 80
        "example_console\<lparr>srSelectionRect := \<lparr>Left = 0, Top = 0, Right = 100, Bottom = 0\<rparr>\<rparr>"]
    by (simp add: ClipToScreenBuffer_def s_GetCurrentBufferEdges_def example_console_def)
qed

section \<open>The dispatcher: a key that cancels a mouse selection\<close>

lemma LineSelection_rejects:
  "\<not> s_IsValidKeyboardLineSelection k \<Longrightarrow> HandleKeyboardLineSelectionEvent s k = Some (False, s)"
  by (simp add: HandleKeyboardLineSelectionEvent_def)

lemma LineSelection_not_handled:
  assumes "HandleKeyboardLineSelectionEvent s k = Some (False, s2)"
  shows "s2 = s"
proof (cases "s_IsValidKeyboardLineSelection k")
  case False
  with assms show ?thesis
    by (simp add: LineSelection_rejects)
next
  case True
  with assms show ?thesis
    by (auto simp: HandleKeyboardLineSelectionEvent_def Let_def split: option.splits if_splits)
qed

lemma HandleColorSelection_not_handled:
  assumes "HandleColorSelection n s k = Some (False, s1)"
  shows "s1 = s\<lparr>srSelectionRect := ClipToScreenBuffer s (srSelectionRect s)\<rparr>"
  using assms
  by (auto simp: HandleColorSelection_def Let_def split: option.splits if_splits)

lemma first_block_falls_through:
  assumes "HandleKeySelectionEvent_keys n s k = Some (Inr s1)"
  shows "s1 = s \<or> s1 = s\<lparr>srSelectionRect := ClipToScreenBuffer s (srSelectionRect s)\<rparr>"
proof -
  define copy where "copy \<longleftrightarrow> VirtualKey k = VK_RETURN \<or>
       (KeyState s VK_CONTROL AND KEY_PRESSED \<noteq> 0 \<and>
        (VirtualKey k = 0x43 \<or> VirtualKey k = VK_INSERT))"
  define digit where "digit \<longleftrightarrow>
       EnableColorSelection s \<and> 0x30 \<le> VirtualKey k \<and> 0x39 \<ge> VirtualKey k"
  have keys: "HandleKeySelectionEvent_keys n s k =
      (if \<not> IsMouseButtonDown s then
        (if VirtualKey k = VK_ESCAPE then
           Some (Inl (EventHandled, record_call ClearSelection s))
         else if copy then
           Some (Inl (CopyToClipboard, record_call SetKeyboardTextEditingUsed s))
         else if digit then
           (case HandleColorSelection n s k of
              None \<Rightarrow> None
            | Some (True, s1) \<Rightarrow> Some (Inl (EventHandled, s1))
            | Some (False, s1) \<Rightarrow> Some (Inr s1))
         else Some (Inr s))
      else Some (Inr s))"
    unfolding HandleKeySelectionEvent_keys_def Let_def copy_def digit_def by (rule refl)
  from assms have "s1 = s \<or> HandleColorSelection n s k = Some (False, s1)"
    unfolding keys by (auto split: if_splits option.splits bool.splits)
  then show ?thesis
    using HandleColorSelection_not_handled [of n s k s1] by blast
qed

text \<open>
  C8. In the dispatcher, on the path where the first block has fallen through (the key
  is not one it returns on) with state \<open>s1\<close>: when the selection is mouse-initiated, no
  mouse button is held, the line-selection extender did not handle the key (the
  selection is not a line selection, or the extender returned false), and the key is
  not a system key, the selection is cleared and the result is still
  \<open>EventNotHandled\<close>.
\<close>

theorem Dispatcher_key_cancels_mouse_selection:
  assumes through: "HandleKeySelectionEvent_keys n s k = Some (Inr s1)"
    and mouse: "IsMouseInitiatedSelection s"
    and up: "\<not> IsMouseButtonDown s"
    and extender: "IsLineSelection s \<longrightarrow>
        (\<exists>s2. HandleKeyboardLineSelectionEvent s1 k = Some (False, s2))"
    and system: "\<not> IsSystemKey (VirtualKey k)"
  shows "HandleKeySelectionEvent IsSystemKey n s k
      = Some (EventNotHandled, record_call ClearSelection s1) \<and>
    calls (record_call ClearSelection s1) = calls s @ [ClearSelection]"
proof -
  from first_block_falls_through [OF through]
  have same: "dwSelectionFlags s1 = dwSelectionFlags s" "fLineSelection s1 = fLineSelection s"
    "fUseAlternateSelection s1 = fUseAlternateSelection s" "calls s1 = calls s"
    by auto
  have flags: "IsMouseInitiatedSelection s1" "\<not> IsMouseButtonDown s1"
    using mouse up same(1) by (simp_all add: IsMouseInitiatedSelection_def IsMouseButtonDown_def)
  have line: "IsLineSelection s1 = IsLineSelection s"
    using same(2,3) by (simp add: IsLineSelection_def)
  have tried: "(if IsLineSelection s1 then HandleKeyboardLineSelectionEvent s1 k
      else Some (False, s1)) = Some (False, s1)"
  proof (cases "IsLineSelection s")
    case True
    with extender obtain s2 where "HandleKeyboardLineSelectionEvent s1 k = Some (False, s2)"
      by blast
    with LineSelection_not_handled [OF this] True line show ?thesis
      by simp
  next
    case False
    with line show ?thesis
      by simp
  qed
  have "HandleKeySelectionEvent IsSystemKey n s k
      = Some (EventNotHandled, record_call ClearSelection s1)"
    unfolding HandleKeySelectionEvent_def Let_def
    by (simp add: through flags tried system)
  then show ?thesis
    by (simp add: record_call_def same(4))
qed

text \<open>
  C8, witness: the key A, with no modifier, over a passive mouse-initiated line
  selection falls through the first block, is rejected by the line-selection extender,
  clears the selection and is reported as not handled.
\<close>

theorem Dispatcher_key_cancels_mouse_selection_witness:
  "map_option (\<lambda>(result, s'). (result, calls s'))
     (HandleKeySelectionEvent modifier_key 80 mouse_console (plain_key 0x41))
   = Some (EventNotHandled, [ClearSelection])
   \<and> HandleKeySelectionEvent_keys 80 mouse_console (plain_key 0x41) = Some (Inr mouse_console)
   \<and> IsLineSelection mouse_console
   \<and> HandleKeyboardLineSelectionEvent mouse_console (plain_key 0x41)
     = Some (False, mouse_console)"
proof -
  have flags: "IsMouseInitiatedSelection mouse_console" "\<not> IsMouseButtonDown mouse_console"
    by (simp_all add: IsMouseInitiatedSelection_def IsMouseButtonDown_def mouse_console_def
        CONSOLE_MOUSE_SELECTION_def CONSOLE_SELECTION_NOT_EMPTY_def CONSOLE_MOUSE_DOWN_def)
  have line: "IsLineSelection mouse_console"
    by (simp add: IsLineSelection_def mouse_console_def example_console_def)
  have invalid: "\<not> s_IsValidKeyboardLineSelection (plain_key 0x41)"
    by (simp add: s_IsValidKeyboardLineSelection_def IsShiftOnly_def IsShiftAndCtrlOnly_def
        plain_key_def)
  note rejected = LineSelection_rejects [OF invalid, of mouse_console]
  have system: "\<not> modifier_key (VirtualKey (plain_key 0x41))"
    by (simp add: plain_key_def modifier_key_def VK_defs)
  have through: "HandleKeySelectionEvent_keys 80 mouse_console (plain_key 0x41)
      = Some (Inr mouse_console)"
    using flags(2)
    by (simp add: HandleKeySelectionEvent_keys_def Let_def plain_key_def VK_defs)
  have extender: "IsLineSelection mouse_console \<longrightarrow>
      (\<exists>s2. HandleKeyboardLineSelectionEvent mouse_console (plain_key 0x41) = Some (False, s2))"
    using rejected by blast
  have empty: "calls mouse_console = []"
    by (simp add: mouse_console_def example_console_def)
  from Dispatcher_key_cancels_mouse_selection
    [where s = mouse_console and k = "plain_key 0x41" and IsSystemKey = modifier_key
      and n = 80 and ?s1.0 = mouse_console, OF through flags extender system]
  show ?thesis
    by (simp add: empty through line rejected)
qed

end
